theory Spec2Isabelle
  imports Main "HOL-Library.Multiset"
begin

section \<open>Python values and string helpers\<close>

text \<open>
  Exceptions are values: a computation that may raise returns \<open>py_error + 'a\<close>,
  with \<open>Inl\<close> for the exception. Strings are \<open>char list\<close>; a character outside
  ASCII is written as its UTF-8 bytes.
\<close>

datatype py_error = KeyError string | IndexError | ValueError | AttributeError | OSError

datatype py_value = PyInt int | PyStr string | PyNone | PyIntList "int list"

text \<open>Truthiness of an \<open>Optional[str]\<close> and of an \<open>Optional[int]\<close>.\<close>

definition truthy_str :: "string option \<Rightarrow> bool" where
  "truthy_str v = (case v of None \<Rightarrow> False | Some s \<Rightarrow> s \<noteq> [])"

definition truthy_int :: "int option \<Rightarrow> bool" where
  "truthy_int v = (case v of None \<Rightarrow> False | Some i \<Rightarrow> i \<noteq> 0)"

text \<open>\<open>str(n)\<close> for an integer, as an f-string prints it.\<close>

definition digit_char :: "nat \<Rightarrow> char" where
  "digit_char d = ''0123456789'' ! (d mod 10)"

fun str_nat :: "nat \<Rightarrow> string" where
  "str_nat n = (if n < 10 then [digit_char n] else str_nat (n div 10) @ [digit_char (n mod 10)])"

definition str_int :: "int \<Rightarrow> string" where
  "str_int i = (if i < 0 then CHR ''-'' # str_nat (nat (- i)) else str_nat (nat i))"

text \<open>\<open>str(x)\<close> of an \<open>Optional[str]\<close> inside an f-string: \<open>None\<close> prints as \<open>None\<close>.\<close>

definition str_opt :: "string option \<Rightarrow> string" where
  "str_opt v = (case v of None \<Rightarrow> ''None'' | Some s \<Rightarrow> s)"

text \<open>\<open>s.startswith(p)\<close>, \<open>s.split(":", 1)\<close> and list indexing with its \<open>IndexError\<close>.\<close>

definition startswith :: "string \<Rightarrow> string \<Rightarrow> bool" where
  "startswith s p = (take (length p) s = p)"

definition split_colon_once :: "string \<Rightarrow> string list" where
  "split_colon_once s =
     (case dropWhile (\<lambda>c. c \<noteq> CHR '':'') s of
        [] \<Rightarrow> [s]
      | _ # rest \<Rightarrow> [takeWhile (\<lambda>c. c \<noteq> CHR '':'') s, rest])"

definition py_index :: "'a list \<Rightarrow> nat \<Rightarrow> py_error + 'a" where
  "py_index xs i = (if i < length xs then Inr (xs ! i) else Inl IndexError)"

text \<open>Decimal digits and the number they write.\<close>

definition is_digit :: "char \<Rightarrow> bool" where
  "is_digit c = (c \<in> set ''0123456789'')"

definition digit_value :: "char \<Rightarrow> nat" where
  "digit_value c = of_char c - 48"

definition decimal_value :: "string \<Rightarrow> int" where
  "decimal_value ds = foldl (\<lambda>a c. 10 * a + int (digit_value c)) 0 ds"

section \<open>The ticket store\<close>

text \<open>
  The module \<open>src/database/db.py\<close> is imported by \<open>src/bot.py\<close> and
  \<open>src/handlers/start.py\<close> but is not among the source files. The handlers below take
  it as a parameter (the record \<open>database\<close>, one field per imported function); the
  definitions of this section model it after the specification (sections 3 and 4.1).
\<close>

datatype ticket_status = Active | Rejected

record ticket =
  ticket_number :: int
  user_id :: int
  username :: "string option"
  file_id :: string
  status :: ticket_status
  status_reason :: "string option"

record store =
  tickets :: "ticket list"
  counter :: int
  languages :: "int \<rightharpoonup> string"

datatype store_result = Success | NotFound

definition next_ticket_number :: "store \<Rightarrow> int \<times> store" where
  \<comment> \<open>Modelled from the spec: \<open>db.get_next_ticket_number\<close> is missing; it "returns the
      next unused ticket number and durably advances the counter". \<open>counter\<close> holds the
      last number issued.\<close>
  "next_ticket_number s = (counter s + 1, s\<lparr>counter := counter s + 1\<rparr>)"

definition add_ticket :: "store \<Rightarrow> int \<Rightarrow> int \<Rightarrow> string option \<Rightarrow> string \<Rightarrow> store" where
  \<comment> \<open>Modelled from the spec: \<open>db.add_ticket\<close> is missing; it "inserts a new ticket with
      status active".\<close>
  "add_ticket s n uid uname photo =
     s\<lparr>tickets := tickets s @
        [\<lparr>ticket_number = n, user_id = uid, username = uname, file_id = photo,
          status = Active, status_reason = None\<rparr>]\<rparr>"

definition list_active_tickets_for_user :: "store \<Rightarrow> int \<Rightarrow> ticket list" where
  \<comment> \<open>Modelled from the spec: \<open>db.get_active_tickets_by_user\<close> is missing; it "returns all
      tickets owned by user_id with status active, in ascending order of ticket number".
      The rows are returned; column 0 of a row is its ticket number.\<close>
  "list_active_tickets_for_user s uid =
     sort_key ticket_number (filter (\<lambda>t. user_id t = uid \<and> status t = Active) (tickets s))"

definition get_active_ticket :: "store \<Rightarrow> int \<Rightarrow> ticket option" where
  \<comment> \<open>Modelled from the spec: \<open>db.get_active_ticket_by_number\<close> is missing; it fetches
      "a single ticket only if status is active".\<close>
  "get_active_ticket s n = find (\<lambda>t. ticket_number t = n \<and> status t = Active) (tickets s)"

definition get_ticket_any_status :: "store \<Rightarrow> int \<Rightarrow> ticket option" where
  \<comment> \<open>Modelled from the spec: \<open>db.get_ticket_by_number_any_status\<close> is missing; it fetches
      "regardless of status".\<close>
  "get_ticket_any_status s n = find (\<lambda>t. ticket_number t = n) (tickets s)"

definition set_ticket_status ::
  "store \<Rightarrow> int \<Rightarrow> ticket_status \<Rightarrow> string option \<Rightarrow> store_result \<times> store" where
  \<comment> \<open>Modelled from the spec: \<open>db.set_ticket_status\<close> is missing; it "applies the
      forward-only transition" and must "reject (no-op, report failure) attempts to move a
      ticket out of rejected". The failure is reported as \<open>NotFound\<close>, the error kind of a
      ticket that is "absent or not in the expected status".\<close>
  "set_ticket_status s n new_status reason =
     (case get_ticket_any_status s n of
        None \<Rightarrow> (NotFound, s)
      | Some t \<Rightarrow>
          if status t = Rejected \<and> new_status \<noteq> Rejected then (NotFound, s)
          else (Success,
                s\<lparr>tickets :=
                    map (\<lambda>t. if ticket_number t = n
                              then t\<lparr>status := new_status, status_reason := reason\<rparr> else t)
                        (tickets s)\<rparr>))"

definition draw_random_active_ticket :: "store \<Rightarrow> nat \<Rightarrow> ticket option" where
  \<comment> \<open>Modelled from the spec: \<open>db.get_random_active_ticket\<close> is missing; it "selects one
      ticket among all tickets currently active" and "does not mutate ticket status". The
      random choice is the argument \<open>r\<close>.\<close>
  "draw_random_active_ticket s r =
     (let act = filter (\<lambda>t. status t = Active) (tickets s)
      in if act = [] then None else Some (act ! (r mod length act)))"

definition archive_round :: "store \<Rightarrow> store" where
  \<comment> \<open>Modelled from the spec: \<open>db.archive_lottery\<close> is missing; it "removes all tickets
      (active and rejected) from the live working set, preserving the global ticket-number
      counter".\<close>
  "archive_round s = s\<lparr>tickets := []\<rparr>"

definition store_set_user_language :: "store \<Rightarrow> int \<Rightarrow> string \<Rightarrow> store" where
  \<comment> \<open>Modelled from the spec: \<open>db.set_user_language\<close> is missing; the preference is a
      "mapping from user id to a language key".\<close>
  "store_set_user_language s uid lang = s\<lparr>languages := (languages s)(uid \<mapsto> lang)\<rparr>"

definition store_get_user_language :: "store \<Rightarrow> int \<Rightarrow> string option" where
  \<comment> \<open>Modelled from the spec: \<open>db.get_user_language\<close> is missing; see
      \<open>store_set_user_language\<close>.\<close>
  "store_get_user_language s uid = languages s uid"

text \<open>
  The operations that change the store, as the program issues them: a photo upload takes
  the next number and adds the ticket under it (\<open>handle_upload_photo\<close>); the other three
  are single calls.
\<close>

datatype store_op =
    OpUpload int "string option" string
  | OpSetStatus int ticket_status "string option"
  | OpArchive
  | OpSetLanguage int string

fun exec_op :: "store \<Rightarrow> store_op \<Rightarrow> store" where
  "exec_op s (OpUpload uid uname photo) =
     (case next_ticket_number s of (n, s') \<Rightarrow> add_ticket s' n uid uname photo)"
| "exec_op s (OpSetStatus n st reason) = snd (set_ticket_status s n st reason)"
| "exec_op s OpArchive = archive_round s"
| "exec_op s (OpSetLanguage uid lang) = store_set_user_language s uid lang"

definition exec_ops :: "store \<Rightarrow> store_op list \<Rightarrow> store" where
  "exec_ops s ops = foldl exec_op s ops"

text \<open>
  Ticket numbers of a store are pairwise distinct and none exceeds the counter: the
  numbering invariant of the specification.
\<close>

definition numbered :: "store \<Rightarrow> bool" where
  "numbered s =
     (distinct (map ticket_number (tickets s)) \<and>
      list_all (\<lambda>t. ticket_number t \<le> counter s) (tickets s))"

definition numbers_with :: "ticket_status \<Rightarrow> store \<Rightarrow> int set" where
  "numbers_with st s = ticket_number ` {t \<in> set (tickets s). status t = st}"

text \<open>
  A store used to evaluate the theorems: ticket 1 (user 10) has been rejected, ticket 2
  (user 11) is active, and 2 is the last number issued.
\<close>

definition demo_store :: store where
  "demo_store =
     \<lparr>tickets =
        [\<lparr>ticket_number = 1, user_id = 10, username = Some ''alice'', file_id = ''photo-1'',
          status = Rejected, status_reason = None\<rparr>,
         \<lparr>ticket_number = 2, user_id = 11, username = None, file_id = ''photo-2'',
          status = Active, status_reason = None\<rparr>],
      counter = 2,
      languages = Map.empty\<rparr>"

text \<open>A store whose rows are not in the order of their numbers.\<close>

definition demo_rows :: store where
  "demo_rows =
     \<lparr>tickets =
        [\<lparr>ticket_number = 3, user_id = 11, username = None, file_id = ''photo-3'',
          status = Active, status_reason = None\<rparr>,
         \<lparr>ticket_number = 1, user_id = 10, username = Some ''alice'', file_id = ''photo-1'',
          status = Rejected, status_reason = Some ''blurred''\<rparr>,
         \<lparr>ticket_number = 2, user_id = 11, username = None, file_id = ''photo-2'',
          status = Active, status_reason = None\<rparr>],
      counter = 3,
      languages = Map.empty\<rparr>"

section \<open>Translations (\<open>src/utils/language.py\<close>)\<close>

type_synonym translation_table = "string \<rightharpoonup> (string \<rightharpoonup> string)"

definition LANGUAGE_MAPPING :: "string \<rightharpoonup> string" where
  "LANGUAGE_MAPPING =
     [''en'' \<mapsto> ''english'', ''ar'' \<mapsto> ''arabic'', ''ru'' \<mapsto> ''russian'',
      ''es'' \<mapsto> ''spanish'', ''zh'' \<mapsto> ''chinese'', ''zh-cn'' \<mapsto> ''chinese'',
      ''zh-tw'' \<mapsto> ''chinese'']"

definition DEFAULT_LANGUAGE :: string where
  "DEFAULT_LANGUAGE = ''english''"

text \<open>
  The module's two globals: \<open>_translations\<close> (\<open>None\<close> until the first load) and
  \<open>_user_languages\<close>.
\<close>

record language_module =
  translations_cache :: "translation_table option"
  user_languages :: "int \<rightharpoonup> string"

text \<open>
  What reading \<open>data/language.json\<close> gives: the parsed dictionary, one of the two
  exceptions that \<open>load_translations\<close> catches, or any other exception of \<open>open\<close> and
  \<open>json.load\<close> (a permission or decoding error), which it does not catch.
\<close>

datatype file_read =
    Parsed translation_table
  | FileNotFoundError
  | JSONDecodeError
  | ReadFails py_error

text \<open>The two fallback dictionaries, with the bytes of their non-ASCII characters.\<close>

definition fallback_missing_file :: translation_table where
  "fallback_missing_file =
     [''english'' \<mapsto>
        [''welcome'' \<mapsto> ''Welcome to Lottery Bot!'',
         ''add_me'' \<mapsto> ''Add Me '' @ [CHR 0xC3, CHR 0xA2, CHR 0xC5, CHR 0xBE, CHR 0xE2, CHR 0x80, CHR 0xA2],
         ''updates'' \<mapsto> ''Bot Updates '' @ [CHR 0xC3, CHR 0xB0, CHR 0xC5, CHR 0xB8, CHR 0xE2, CHR 0x80,
                                            CHR 0x9D, CHR 0xE2, CHR 0x80, CHR 0x9D]]]"

definition fallback_broken_file :: translation_table where
  "fallback_broken_file = [''english'' \<mapsto> [''welcome'' \<mapsto> ''Welcome to Lottery Bot!'']]"

definition load_translations ::
  "file_read \<Rightarrow> language_module \<Rightarrow> (py_error + translation_table) \<times> language_module" where
  "load_translations file m =
     (case translations_cache m of
        Some t \<Rightarrow> (Inr t, m)
      | None \<Rightarrow>
          (case file of
             Parsed t \<Rightarrow> (Inr t, m\<lparr>translations_cache := Some t\<rparr>)
           | FileNotFoundError \<Rightarrow>
               (Inr fallback_missing_file, m\<lparr>translations_cache := Some fallback_missing_file\<rparr>)
           | JSONDecodeError \<Rightarrow>
               (Inr fallback_broken_file, m\<lparr>translations_cache := Some fallback_broken_file\<rparr>)
           | ReadFails e \<Rightarrow> (Inl e, m)))"

text \<open>\<open>str.lower()\<close> on the ASCII letters; the keys of \<open>LANGUAGE_MAPPING\<close> are ASCII.\<close>

definition lower_char :: "char \<Rightarrow> char" where
  "lower_char c =
     (let n = (of_char c :: nat) in if 65 \<le> n \<and> n \<le> 90 then char_of (n + 32) else c)"

definition lower :: "string \<Rightarrow> string" where
  "lower s = map lower_char s"

definition get_user_lang ::
  "file_read \<Rightarrow> language_module \<Rightarrow> string option \<Rightarrow> (py_error + string) \<times> language_module" where
  "get_user_lang file m language_code =
     (case language_code of
        None \<Rightarrow> (Inr DEFAULT_LANGUAGE, m)
      | Some code \<Rightarrow>
          if code = [] then (Inr DEFAULT_LANGUAGE, m)
          else (case LANGUAGE_MAPPING (lower code) of
             None \<Rightarrow> (Inr DEFAULT_LANGUAGE, m)
           | Some detected_lang \<Rightarrow>
               (case load_translations file m of
                  (Inl e, m') \<Rightarrow> (Inl e, m')
                | (Inr t, m') \<Rightarrow>
                    if t detected_lang \<noteq> None then (Inr detected_lang, m')
                    else (Inr DEFAULT_LANGUAGE, m'))))"

definition set_user_language :: "language_module \<Rightarrow> int \<Rightarrow> string \<Rightarrow> language_module" where
  "set_user_language m uid language = m\<lparr>user_languages := (user_languages m)(uid \<mapsto> language)\<rparr>"

definition get_user_language :: "language_module \<Rightarrow> int \<Rightarrow> string" where
  "get_user_language m uid =
     (case user_languages m uid of None \<Rightarrow> DEFAULT_LANGUAGE | Some l \<Rightarrow> l)"

subsection \<open>\<open>str.format(**kwargs)\<close>\<close>

text \<open>
  The format string is read as CPython reads it: literal text up to a brace, \<open>{{\<close> and
  \<open>}}\<close> as escaped braces, and a replacement field \<open>{name!conversion:spec}\<close>. What the
  objects themselves do is a parameter: \<open>resolve\<close> follows the attribute and index
  lookups written after the first part of the field name and applies the conversion;
  \<open>format_value\<close> is \<open>format(value, spec)\<close>. Each may raise.
\<close>

record 'v py_protocol =
  resolve :: "'v \<Rightarrow> string \<Rightarrow> char option \<Rightarrow> py_error + 'v"
  format_value :: "'v \<Rightarrow> string \<Rightarrow> py_error + string"

record markup_field =
  field_name :: string
  conversion :: "char option"
  format_spec :: string
  needs_expanding :: bool

text \<open>
  The field name ends at \<open>}\<close>, \<open>:\<close> or \<open>!\<close>; inside \<open>[ ]\<close> every character belongs to
  the name; a \<open>{\<close> in the name, or the end of the string, is a \<open>ValueError\<close>.
\<close>

fun scan_name :: "bool \<Rightarrow> string \<Rightarrow> string \<Rightarrow> py_error + (string \<times> char \<times> string)" where
  "scan_name in_bracket acc [] = Inl ValueError"
| "scan_name in_bracket acc (c # r) =
     (if in_bracket then scan_name (c \<noteq> CHR '']'') (acc @ [c]) r
      else if c = CHR ''{'' then Inl ValueError
      else if c = CHR ''['' then scan_name True (acc @ [c]) r
      else if c = CHR ''}'' \<or> c = CHR '':'' \<or> c = CHR ''!'' then Inr (acc, c, r)
      else scan_name False (acc @ [c]) r)"

text \<open>The format specification ends at the \<open>}\<close> that closes the field, braces counted.\<close>

fun scan_spec :: "nat \<Rightarrow> string \<Rightarrow> bool \<Rightarrow> string \<Rightarrow> py_error + (string \<times> bool \<times> string)" where
  "scan_spec n acc expanding [] = Inl ValueError"
| "scan_spec n acc expanding (c # r) =
     (if c = CHR ''{'' then scan_spec (Suc n) (acc @ [c]) True r
      else if c = CHR ''}'' then
        (if n = 1 then Inr (acc, expanding, r) else scan_spec (n - 1) (acc @ [c]) expanding r)
      else scan_spec n (acc @ [c]) expanding r)"

definition parse_field :: "string \<Rightarrow> py_error + (markup_field \<times> string)" where
  "parse_field s =
     (case scan_name False [] s of
        Inl e \<Rightarrow> Inl e
      | Inr (name, c, r) \<Rightarrow>
          if c = CHR ''}''
          then Inr (\<lparr>field_name = name, conversion = None, format_spec = [],
                     needs_expanding = False\<rparr>, r)
          else if c = CHR ''!''
          then (case r of
                  [] \<Rightarrow> Inl ValueError
                | conv # r1 \<Rightarrow>
                    (case r1 of
                       [] \<Rightarrow> Inl ValueError
                     | c2 # r2 \<Rightarrow>
                         if c2 = CHR ''}''
                         then Inr (\<lparr>field_name = name, conversion = Some conv, format_spec = [],
                                    needs_expanding = False\<rparr>, r2)
                         else if c2 \<noteq> CHR '':'' then Inl ValueError
                         else (case scan_spec 1 [] False r2 of
                                 Inl e \<Rightarrow> Inl e
                               | Inr (spec, ex, rest) \<Rightarrow>
                                   Inr (\<lparr>field_name = name, conversion = Some conv,
                                         format_spec = spec, needs_expanding = ex\<rparr>, rest))))
          else (case scan_spec 1 [] False r of
                  Inl e \<Rightarrow> Inl e
                | Inr (spec, ex, rest) \<Rightarrow>
                    Inr (\<lparr>field_name = name, conversion = None, format_spec = spec,
                          needs_expanding = ex\<rparr>, rest)))"

definition is_brace :: "char \<Rightarrow> bool" where
  "is_brace c = (c = CHR ''{'' \<or> c = CHR ''}'')"

text \<open>
  One step of the reader on a non-empty string: the literal text, the field that follows
  it (if any) and the rest of the string.
\<close>

definition next_markup :: "string \<Rightarrow> py_error + (string \<times> markup_field option \<times> string)" where
  "next_markup s =
     (let lit = takeWhile (\<lambda>c. \<not> is_brace c) s in
      case dropWhile (\<lambda>c. \<not> is_brace c) s of
        [] \<Rightarrow> Inr (lit, None, [])
      | c # r \<Rightarrow>
          if c = CHR ''}'' \<and> (r = [] \<or> hd r \<noteq> CHR ''}'') then Inl ValueError
          else if r = [] then Inl ValueError
          else if hd r = c then Inr (lit @ [c], None, tl r)
          else (case parse_field r of
                  Inl e \<Rightarrow> Inl e
                | Inr (f, rest) \<Rightarrow> Inr (lit, Some f, rest)))"

text \<open>
  A field is looked up by the first part of its name. With keyword arguments only, an
  empty or numeric first part indexes the empty tuple of positional arguments
  (\<open>IndexError\<close>; a number beyond \<open>sys.maxsize\<close> is a \<open>ValueError\<close>); any other name is
  a key of \<open>kwargs\<close> (\<open>KeyError\<close> when absent). A specification that contains fields is
  expanded first, by \<open>expand\<close>.
\<close>

definition output_markup ::
  "'v py_protocol \<Rightarrow> (string \<rightharpoonup> 'v) \<Rightarrow> (string \<Rightarrow> py_error + string) \<Rightarrow> markup_field
     \<Rightarrow> py_error + string" where
  "output_markup P kwargs expand f =
     (let first = takeWhile (\<lambda>c. c \<noteq> CHR ''.'' \<and> c \<noteq> CHR ''['') (field_name f);
          rest = dropWhile (\<lambda>c. c \<noteq> CHR ''.'' \<and> c \<noteq> CHR ''['') (field_name f);
          digits = takeWhile is_digit first
      in if digits \<noteq> [] \<and> decimal_value digits > 2 ^ 63 - 1 then Inl ValueError
         else if first = [] \<or> digits = first then Inl IndexError
         else (case kwargs first of
                 None \<Rightarrow> Inl (KeyError first)
               | Some v \<Rightarrow>
                   (case resolve P v rest (conversion f) of
                      Inl e \<Rightarrow> Inl e
                    | Inr obj \<Rightarrow>
                        if needs_expanding f
                        then (case expand (format_spec f) of
                                Inl e \<Rightarrow> Inl e
                              | Inr spec \<Rightarrow> format_value P obj spec)
                        else format_value P obj (format_spec f))))"

function do_markup ::
  "'v py_protocol \<Rightarrow> (string \<rightharpoonup> 'v) \<Rightarrow> (string \<Rightarrow> py_error + string) \<Rightarrow> string
     \<Rightarrow> py_error + string" where
  "do_markup P kwargs expand s =
     (if s = [] then Inr []
      else (case next_markup s of
              Inl e \<Rightarrow> Inl e
            | Inr (lit, fld, rest) \<Rightarrow>
                (case (case fld of None \<Rightarrow> Inr [] | Some f \<Rightarrow> output_markup P kwargs expand f) of
                   Inl e \<Rightarrow> Inl e
                 | Inr out \<Rightarrow>
                     (case do_markup P kwargs expand rest of
                        Inl e \<Rightarrow> Inl e
                      | Inr t \<Rightarrow> Inr (lit @ out @ t)))))"
  by pat_completeness auto
termination
proof (relation "measure (\<lambda>(P, kwargs, expand, s). length s)")
  show "wf (measure (\<lambda>(P :: 'v py_protocol, kwargs :: string \<rightharpoonup> 'v,
                        expand :: string \<Rightarrow> py_error + string, s). length s))"
    by simp
next
  fix P :: "'v py_protocol" and kwargs :: "string \<rightharpoonup> 'v"
    and expand :: "string \<Rightarrow> py_error + string"
    and s :: string and x2 lit y fld rest and x2a :: string
  assume s: "s \<noteq> []" and nm: "next_markup s = Inr x2" and x2: "(lit, y) = x2"
    and y: "(fld, rest) = y"
  have name: "scan_name b acc u = Inr (n, c, r) \<Longrightarrow> length r < length u" for b acc u n c r
    by (induction u arbitrary: b acc) (fastforce split: if_splits intro: less_SucI)+
  have spec: "scan_spec k acc ex u = Inr (sp, ex', r) \<Longrightarrow> length r < length u"
    for k acc ex u sp ex' r
    by (induction u arbitrary: k acc ex) (fastforce split: if_splits intro: less_SucI)+
  have field: "parse_field u = Inr (f, r) \<Longrightarrow> length r < length u" for u f r
    unfolding parse_field_def
    by (auto split: sum.splits if_splits list.splits dest!: name spec)
  have drop: "length (dropWhile (\<lambda>c. \<not> is_brace c) s) \<le> length s"
    by (rule length_dropWhile_le)
  from nm x2 y have "next_markup s = Inr (lit, fld, rest)" by simp
  with s drop have "length rest < length s"
    unfolding next_markup_def Let_def
    by (auto split: list.splits if_splits sum.splits dest!: field)
  then show "((P, kwargs, expand, rest), (P, kwargs, expand, s))
        \<in> measure (\<lambda>(P, kwargs, expand, s). length s)"
    by simp
qed

text \<open>
  \<open>build_string\<close> with its recursion depth: the format string is expanded at depth 2, a
  specification inside it at depth 1, and a field inside that specification is refused.
\<close>

primrec build_string ::
  "'v py_protocol \<Rightarrow> (string \<rightharpoonup> 'v) \<Rightarrow> nat \<Rightarrow> string \<Rightarrow> py_error + string" where
  "build_string P kwargs 0 s = Inl ValueError"
| "build_string P kwargs (Suc d) s = do_markup P kwargs (build_string P kwargs d) s"

definition str_format :: "'v py_protocol \<Rightarrow> string \<Rightarrow> (string \<rightharpoonup> 'v) \<Rightarrow> py_error + string" where
  "str_format P s kwargs = build_string P kwargs 2 s"

subsection \<open>\<open>get_text\<close>\<close>

definition lookup_translation :: "translation_table \<Rightarrow> string \<Rightarrow> string \<Rightarrow> string option" where
  "lookup_translation t lang key = (case t lang of None \<Rightarrow> None | Some d \<Rightarrow> d key)"

definition format_or_text :: "'v py_protocol \<Rightarrow> string \<Rightarrow> (string \<rightharpoonup> 'v) \<Rightarrow> string" where
  "format_or_text P txt kwargs = (case str_format P txt kwargs of Inr s \<Rightarrow> s | Inl e \<Rightarrow> txt)"

definition get_text ::
  "'v py_protocol \<Rightarrow> file_read \<Rightarrow> language_module \<Rightarrow> int \<Rightarrow> string \<Rightarrow> (string \<rightharpoonup> 'v)
     \<Rightarrow> (py_error + string) \<times> language_module" where
  "get_text P file m uid key kwargs =
     (let user_lang = get_user_language m uid in
      case load_translations file m of
        (Inl e, m') \<Rightarrow> (Inl e, m')
      | (Inr t, m') \<Rightarrow>
          (case lookup_translation t user_lang key of
             Some txt \<Rightarrow> (Inr (format_or_text P txt kwargs), m')
           | None \<Rightarrow>
               (case lookup_translation t DEFAULT_LANGUAGE key of
                  Some txt \<Rightarrow> (Inr (format_or_text P txt kwargs), m')
                | None \<Rightarrow> (Inr (''[Missing translation: '' @ key @ '']''), m'))))"


section \<open>Configuration, users and the transport layer\<close>

text \<open>\<open>Settings\<close> of \<open>src/src/helpers/config.py\<close>.\<close>

record settings =
  bot_token :: string
  admin_ids :: "int list"
  group_chat_id :: int
  log_channel_id :: "int option"
  channel_username :: "string option"
  updates_channel_username :: "string option"

text \<open>The attributes of a Telegram user that the bot reads.\<close>

record tg_user =
  tg_id :: int
  tg_username :: "string option"
  language_code :: "string option"

text \<open>
  A text shown to a user is either \<open>get_text(user.id, key, **kwargs)\<close>, kept as its key
  and parameters, or a string literal of the source. What the handlers send is recorded,
  in order, as a list of events; every call to the database module is an event too.
\<close>

datatype msg_text = Translated string "(string \<times> py_value) list" | Literal string

datatype button_target = CallbackData string | Url string

datatype button = InlineKeyboardButton msg_text button_target

type_synonym inline_keyboard = "button list list"

datatype db_call =
    GetNextTicketNumber
  | AddTicket int int "string option" string
  | GetActiveTicketsByUser int
  | GetActiveTicketByNumber int
  | GetTicketByNumberAnyStatus int
  | SetTicketStatus int ticket_status "string option"
  | GetRandomActiveTicket
  | ArchiveLottery
  | SetUserLanguage int string
  | GetUserLanguage int

datatype event =
    Database db_call
  | CallbackAnswer "msg_text option" bool
  | MessageAnswer msg_text "inline_keyboard option"
  | MessageReply msg_text "inline_keyboard option"
  | AnswerPhoto string msg_text "inline_keyboard option"
  | SendMessage int msg_text
  | EditReplyMarkup
  | FsmClear
  | LogUserAction tg_user string "string option" "string option"
  | LogAdminAction tg_user string "string option" "string option"
  | LogSystemEvent string "string option"
  | LogSystemError string string py_error

record callback_query =
  cq_from_user :: "tg_user option"
  cq_data :: "string option"

record message =
  msg_from_user :: "tg_user option"

section \<open>Keyboards (\<open>src/src/helpers/bot.py\<close>)\<close>

definition ticket_emoji :: string where
  "ticket_emoji = [CHR 0xF0, CHR 0x9F, CHR 0x8E, CHR 0x9F]"

definition numero_sign :: string where
  "numero_sign = [CHR 0xE2, CHR 0x84, CHR 0x96]"

definition get_welcome_inline_keyboard ::
  "string option \<Rightarrow> string option \<Rightarrow> msg_text \<Rightarrow> msg_text \<Rightarrow> inline_keyboard" where
  "get_welcome_inline_keyboard channel updates_channel add_me_text updates_text =
     (case channel of
        Some c \<Rightarrow> if c \<noteq> [] then
            [[InlineKeyboardButton add_me_text
                (Url (''https://t.me/'' @ dropWhile (\<lambda>x. x = CHR ''@'') c))]] else []
      | None \<Rightarrow> [])
     @
     (case updates_channel of
        Some c \<Rightarrow> if c \<noteq> [] then
            [[InlineKeyboardButton updates_text
                (Url (''https://t.me/'' @ dropWhile (\<lambda>x. x = CHR ''@'') c))]] else []
      | None \<Rightarrow> [])"

definition lottery_inline_actions :: "int \<Rightarrow> msg_text \<Rightarrow> msg_text \<Rightarrow> inline_keyboard" where
  "lottery_inline_actions ticket confirm_text reject_text =
     [[InlineKeyboardButton confirm_text (CallbackData (''confirm_win:'' @ str_int ticket)),
       InlineKeyboardButton reject_text (CallbackData (''reject_win:'' @ str_int ticket))]]"

text \<open>The buttons are laid out two in a row, in the order of the list.\<close>

fun rows_of_two :: "'a list \<Rightarrow> 'a list list" where
  "rows_of_two [] = []"
| "rows_of_two [x] = [[x]]"
| "rows_of_two (x # y # xs) = [x, y] # rows_of_two xs"

definition ticket_button :: "int \<Rightarrow> button" where
  "ticket_button n =
     InlineKeyboardButton (Literal (ticket_emoji @ '' '' @ numero_sign @ str_int n))
       (CallbackData (''view_ticket:'' @ str_int n))"

definition user_tickets_inline_keyboard :: "int list \<Rightarrow> inline_keyboard" where
  "user_tickets_inline_keyboard ticket_numbers =
     (if ticket_numbers = [] then [] else rows_of_two (map ticket_button ticket_numbers))"

section \<open>Helpers of \<open>src/commands/utils.py\<close>\<close>

text \<open>
  \<open>src/bot.py\<close> imports \<open>is_admin\<close>, \<open>parse_int_safe\<close> and \<open>draw_lock\<close> from
  \<open>src/commands/utils.py\<close>, which is not among the source files.
\<close>

definition is_admin :: "int \<Rightarrow> int list \<Rightarrow> bool" where
  \<comment> \<open>Modelled from the spec: \<open>is_admin\<close> is missing; the configuration holds "the set of
      administrator identifiers" and the predicate is over a user identifier.\<close>
  "is_admin uid ids = (uid \<in> set ids)"

text \<open>A decimal integer: one or more digits, with an optional minus sign before them.\<close>

definition is_decimal_integer :: "string \<Rightarrow> bool" where
  "is_decimal_integer s =
     (case s of
        [] \<Rightarrow> False
      | c # ds \<Rightarrow> if c = CHR ''-'' then ds \<noteq> [] \<and> list_all is_digit ds
                 else list_all is_digit s)"

definition parse_int_safe :: "string \<Rightarrow> int option" where
  \<comment> \<open>Modelled from the spec: \<open>parse_int_safe\<close> is missing; a payload "carries the ticket
      number as a decimal integer suffix" and the core must "treat a non-integer suffix as
      an error". \<open>None\<close> is the error.\<close>
  "parse_int_safe s =
     (if is_decimal_integer s
      then Some (case s of
                   c # ds \<Rightarrow> if c = CHR ''-'' then - decimal_value ds
                             else decimal_value s
                 | [] \<Rightarrow> 0)
      else None)"

section \<open>The database module as a parameter\<close>

text \<open>
  One field per function that \<open>src/bot.py\<close> and \<open>src/handlers/start.py\<close> import from
  \<open>src/database/db.py\<close>. A function that reads returns its result; a function that
  writes returns the new database. The random source of the draw is an argument.
\<close>

record 'db database =
  db_get_next_ticket_number :: "'db \<Rightarrow> int \<times> 'db"
  db_add_ticket :: "'db \<Rightarrow> int \<Rightarrow> int \<Rightarrow> string option \<Rightarrow> string \<Rightarrow> 'db"
  db_get_active_tickets_by_user :: "'db \<Rightarrow> int \<Rightarrow> ticket list"
  db_get_active_ticket_by_number :: "'db \<Rightarrow> int \<Rightarrow> ticket option"
  db_get_ticket_by_number_any_status :: "'db \<Rightarrow> int \<Rightarrow> ticket option"
  db_set_ticket_status :: "'db \<Rightarrow> int \<Rightarrow> ticket_status \<Rightarrow> string option \<Rightarrow> 'db"
  db_get_random_active_ticket :: "'db \<Rightarrow> nat \<Rightarrow> ticket option"
  db_archive_lottery :: "'db \<Rightarrow> 'db"
  db_set_user_language :: "'db \<Rightarrow> int \<Rightarrow> string \<Rightarrow> 'db"
  db_get_user_language :: "'db \<Rightarrow> int \<Rightarrow> string option"

text \<open>The database of the specification: the store of the section above.\<close>

definition spec_database :: "store database" where
  "spec_database =
     \<lparr>db_get_next_ticket_number = next_ticket_number,
      db_add_ticket = add_ticket,
      db_get_active_tickets_by_user = list_active_tickets_for_user,
      db_get_active_ticket_by_number = get_active_ticket,
      db_get_ticket_by_number_any_status = get_ticket_any_status,
      db_set_ticket_status = (\<lambda>s n st reason. snd (set_ticket_status s n st reason)),
      db_get_random_active_ticket = draw_random_active_ticket,
      db_archive_lottery = archive_round,
      db_set_user_language = store_set_user_language,
      db_get_user_language = store_get_user_language\<rparr>"

section \<open>The handlers of \<open>src/bot.py\<close>\<close>

text \<open>
  A handler takes the database module, the settings, the global logger (\<open>get_logger()\<close>,
  \<open>None\<close> before \<open>init_logger\<close>), the incoming event and the database, and returns the
  database and the events it produced. \<open>logged\<close> is the audit call of a handler, made
  only when the logger exists.
\<close>

definition logged :: "'l option \<Rightarrow> event \<Rightarrow> event list" where
  "logged logger e = (case logger of None \<Rightarrow> [] | Some _ \<Rightarrow> [e])"

definition admin_confirm_winner ::
  "'db database \<Rightarrow> settings \<Rightarrow> 'l option \<Rightarrow> callback_query \<Rightarrow> 'db \<Rightarrow> 'db \<times> event list" where
  "admin_confirm_winner D cfg logger callback db =
     (case cq_from_user callback of
        None \<Rightarrow> (db, [CallbackAnswer (Some (Literal ''Error confirming winner'')) False])
      | Some user \<Rightarrow>
          if \<not> is_admin (tg_id user) (admin_ids cfg)
          then (db, [CallbackAnswer (Some (Translated ''no_rights'' [])) True])
          else (case cq_data callback of
             None \<Rightarrow> (db, [])
           | Some data \<Rightarrow>
               if data = [] \<or> \<not> startswith data ''confirm_win:'' then (db, [])
               else (case py_index (split_colon_once data) 1 of
                  Inl e \<Rightarrow> (db, [CallbackAnswer (Some (Literal ''Error confirming winner'')) False])
                | Inr suffix \<Rightarrow>
                   (case parse_int_safe suffix of
                      None \<Rightarrow>
                        (db, [CallbackAnswer (Some (Translated ''incorrect_ticket_number'' [])) True])
                    | Some num \<Rightarrow>
                       (case db_get_ticket_by_number_any_status D db num of
                          None \<Rightarrow>
                            (db, [Database (GetTicketByNumberAnyStatus num),
                                  CallbackAnswer (Some (Translated ''ticket_unavailable'' [])) True])
                        | Some ticket \<Rightarrow>
                            if status ticket \<noteq> Active
                            then (db, [Database (GetTicketByNumberAnyStatus num),
                                       CallbackAnswer (Some (Translated ''ticket_unavailable'' [])) True])
                            else (db_set_ticket_status D db num Rejected None,
                                  [Database (GetTicketByNumberAnyStatus num),
                                   Database (SetTicketStatus num Rejected None)]
                                  @ logged logger
                                      (LogAdminAction user ''confirm_winner''
                                         (Some (''Ticket #'' @ str_int num))
                                         (Some (''Winner: @'' @ str_opt (username ticket))))
                                  @ [SendMessage (group_chat_id cfg)
                                       (Translated ''winner_announced''
                                          [(''ticket_number'', PyInt num),
                                           (''username'',
                                            case username ticket of None \<Rightarrow> PyNone
                                            | Some u \<Rightarrow> PyStr u)]),
                                     EditReplyMarkup,
                                     CallbackAnswer (Some (Translated ''winner_published'' []))
                                       False]))))))"

definition user_view_ticket_callback ::
  "'db database \<Rightarrow> 'l option \<Rightarrow> callback_query \<Rightarrow> 'db \<Rightarrow> 'db \<times> event list" where
  "user_view_ticket_callback D logger callback db =
     (case cq_from_user callback of
        None \<Rightarrow> (db, [])
      | Some user \<Rightarrow>
          if \<not> truthy_str (cq_data callback)
             \<or> \<not> startswith (the (cq_data callback)) ''view_ticket:''
          then (db, [CallbackAnswer (Some (Translated ''incorrect_request'' [])) True])
          else (case py_index (split_colon_once (the (cq_data callback))) 1 of
             Inl e \<Rightarrow> (db, [CallbackAnswer (Some (Literal ''Error viewing ticket'')) False])
           | Inr suffix \<Rightarrow>
              (case parse_int_safe suffix of
                 None \<Rightarrow>
                   (db, [CallbackAnswer (Some (Translated ''incorrect_ticket_number'' [])) True])
               | Some num \<Rightarrow>
                  (case db_get_active_ticket_by_number D db num of
                     None \<Rightarrow>
                       (db, [Database (GetActiveTicketByNumber num),
                             CallbackAnswer (Some (Translated ''ticket_not_found'' [])) True])
                   | Some ticket \<Rightarrow>
                       if user_id ticket \<noteq> tg_id user
                       then (db, [Database (GetActiveTicketByNumber num),
                                  CallbackAnswer (Some (Translated ''no_access_ticket'' [])) True])
                       else (db, [Database (GetActiveTicketByNumber num)]
                                 @ logged logger
                                     (LogUserAction user ''view_ticket'' None
                                        (Some (''Ticket #'' @ str_int num)))
                                 @ [AnswerPhoto (file_id ticket)
                                      (Translated ''your_ticket'' [(''ticket_number'', PyInt num)])
                                      None,
                                    CallbackAnswer None False])))))"

definition handle_my_tickets ::
  "'db database \<Rightarrow> 'l option \<Rightarrow> message \<Rightarrow> 'db \<Rightarrow> 'db \<times> event list" where
  "handle_my_tickets D logger msg db =
     (case msg_from_user msg of
        None \<Rightarrow> (db, [])
      | Some user \<Rightarrow>
          (let rows = db_get_active_tickets_by_user D db (tg_id user);
               before = logged logger (LogUserAction user ''view_my_tickets'' None None)
                        @ [Database (GetActiveTicketsByUser (tg_id user))]
           in if rows = []
              then (db, before @ [MessageAnswer (Translated ''no_tickets'' []) None])
              else (let ticket_numbers = map ticket_number rows;
                        keyboard = user_tickets_inline_keyboard ticket_numbers
                    in (db, before @
                          [MessageAnswer
                             (Translated ''your_tickets''
                                [(''count'', PyInt (int (length ticket_numbers)))])
                             (Some keyboard)]))))"

definition admin_archive ::
  "'db database \<Rightarrow> settings \<Rightarrow> 'l option \<Rightarrow> message \<Rightarrow> 'db \<Rightarrow> 'db \<times> event list" where
  "admin_archive D cfg logger msg db =
     (case msg_from_user msg of
        None \<Rightarrow> (db, [MessageAnswer (Literal ''Error archiving lottery'') None])
      | Some user \<Rightarrow>
          if \<not> is_admin (tg_id user) (admin_ids cfg)
          then (db, [MessageAnswer (Translated ''insufficient_rights'' []) None])
          else (db_archive_lottery D db,
                logged logger (LogAdminAction user ''archive_lottery'' None None)
                @ [Database ArchiveLottery,
                   SendMessage (group_chat_id cfg) (Translated ''lottery_archived'' [])]))"

section \<open>The audit logger (\<open>src/utils/logger.py\<close>)\<close>

text \<open>
  \<open>TelegramLogger\<close> holds the bot and the channel. \<open>bot.send_message\<close> is a parameter:
  given the chat and the text it returns \<open>None\<close>, or the exception it raises. The time
  stamp that \<open>datetime.now().strftime\<close> prints is a parameter too. A call returns whether
  it raised, and what it wrote: records of the Python logger and messages handed to the
  transport.
\<close>

record telegram_logger =
  logger_channel_id :: "int option"

type_synonym bot_send = "int \<Rightarrow> string \<Rightarrow> py_error option"

datatype log_entry =
    PyInfo string
  | PyWarning string
  | PyError string py_error
  | ChannelMessage int string

type_synonym 'a logging = "(py_error + 'a) \<times> log_entry list"

text \<open>\<open>try: body except Exception as e: handler(e)\<close>.\<close>

definition try_except :: "'a logging \<Rightarrow> (py_error \<Rightarrow> 'a logging) \<Rightarrow> 'a logging" where
  "try_except body handler =
     (case fst body of
        Inl e \<Rightarrow> (fst (handler e), snd body @ snd (handler e))
      | Inr v \<Rightarrow> body)"

definition send_message :: "bot_send \<Rightarrow> int \<Rightarrow> string \<Rightarrow> unit logging" where
  "send_message send chat body =
     (case send chat body of
        None \<Rightarrow> (Inr (), [ChannelMessage chat body])
      | Some e \<Rightarrow> (Inl e, [ChannelMessage chat body]))"

definition newline :: string where "newline = [CHR 0x0A]"
definition emoji_chart :: string where "emoji_chart = [CHR 0xF0, CHR 0x9F, CHR 0x93, CHR 0x8A]"
definition emoji_user :: string where "emoji_user = [CHR 0xF0, CHR 0x9F, CHR 0x91, CHR 0xA4]"
definition emoji_target :: string where "emoji_target = [CHR 0xF0, CHR 0x9F, CHR 0x8E, CHR 0xAF]"
definition emoji_globe :: string where "emoji_globe = [CHR 0xF0, CHR 0x9F, CHR 0x8C, CHR 0x90]"
definition emoji_info :: string where "emoji_info = [CHR 0xE2, CHR 0x84, CHR 0xB9, CHR 0xEF, CHR 0xB8, CHR 0x8F]"
definition emoji_clock :: string where "emoji_clock = [CHR 0xE2, CHR 0x8F, CHR 0xB0]"
definition emoji_robot :: string where "emoji_robot = [CHR 0xF0, CHR 0x9F, CHR 0xA4, CHR 0x96]"
definition emoji_clipboard :: string where "emoji_clipboard = [CHR 0xF0, CHR 0x9F, CHR 0x93, CHR 0x8B]"
definition emoji_memo :: string where "emoji_memo = [CHR 0xF0, CHR 0x9F, CHR 0x93, CHR 0x9D]"

definition display_name :: "tg_user \<Rightarrow> string" where
  "display_name user =
     (case tg_username user of
        None \<Rightarrow> ''No username''
      | Some n \<Rightarrow> if n = [] then ''No username'' else ''@'' @ n)"

definition user_log_message ::
  "string \<Rightarrow> tg_user \<Rightarrow> string \<Rightarrow> string option \<Rightarrow> string option \<Rightarrow> string" where
  "user_log_message timestamp user action language additional_info =
     emoji_chart @ '' <b>User Action Log</b>'' @ newline @ newline
     @ emoji_user @ '' <b>User:</b> '' @ display_name user
         @ '' ('' @ str_int (tg_id user) @ '')'' @ newline
     @ emoji_target @ '' <b>Action:</b> '' @ action @ newline
     @ (case language of
          None \<Rightarrow> []
        | Some l \<Rightarrow> if l = [] then []
                    else emoji_globe @ '' <b>Language:</b> '' @ l @ newline)
     @ (case additional_info of
          None \<Rightarrow> []
        | Some i \<Rightarrow> if i = [] then []
                    else emoji_info @ '' <b>Info:</b> '' @ i @ newline)
     @ emoji_clock @ '' <b>Time:</b> '' @ timestamp"

definition log_user_action ::
  "telegram_logger \<Rightarrow> bot_send \<Rightarrow> string \<Rightarrow> tg_user \<Rightarrow> string \<Rightarrow> string option
     \<Rightarrow> string option \<Rightarrow> unit logging" where
  "log_user_action self send timestamp user action language additional_info =
     try_except
       (let log_message = user_log_message timestamp user action language additional_info;
            info = PyInfo (''User '' @ str_int (tg_id user) @ '' ('' @ display_name user
                           @ '') performed action: '' @ action)
        in case logger_channel_id self of
             None \<Rightarrow>
               (Inr (), [info, PyWarning ''Log channel not configured, skipping Telegram logging''])
           | Some chat \<Rightarrow>
               if chat = 0
               then (Inr (), [info, PyWarning ''Log channel not configured, skipping Telegram logging''])
               else (let sent =
                           try_except (send_message send chat log_message)
                             (\<lambda>e. (Inr (),
                                   [PyError (''Failed to send log to Telegram channel ''
                                             @ str_int chat @ '': '') e]))
                     in (fst sent, info # snd sent)))
       (\<lambda>e. (Inr (), [PyError ''Error in log_user_action: '' e]))"

text \<open>\<open>sep.join(parts)\<close>.\<close>

fun join :: "string \<Rightarrow> string list \<Rightarrow> string" where
  "join sep [] = []"
| "join sep [x] = x"
| "join sep (x # y # xs) = x @ sep @ join sep (y # xs)"

definition log_admin_action ::
  "telegram_logger \<Rightarrow> bot_send \<Rightarrow> string \<Rightarrow> tg_user \<Rightarrow> string \<Rightarrow> string option
     \<Rightarrow> string option \<Rightarrow> unit logging" where
  "log_admin_action self send timestamp user action target reason =
     (let additional_info =
            (if truthy_str target then [''Target: '' @ the target] else [])
            @ (if truthy_str reason then [''Reason: '' @ the reason] else [])
      in log_user_action self send timestamp user (''[ADMIN] '' @ action) None
           (if additional_info \<noteq> [] then Some (join '' | '' additional_info) else None))"

definition system_log_message :: "string \<Rightarrow> string \<Rightarrow> string option \<Rightarrow> string" where
  "system_log_message timestamp event details =
     emoji_robot @ '' <b>System Event</b>'' @ newline @ newline
     @ emoji_clipboard @ '' <b>Event:</b> '' @ event @ newline
     @ (case details of
          None \<Rightarrow> []
        | Some d \<Rightarrow> if d = [] then []
                    else emoji_memo @ '' <b>Details:</b> '' @ d @ newline)
     @ emoji_clock @ '' <b>Time:</b> '' @ timestamp"

definition log_system_event ::
  "telegram_logger \<Rightarrow> bot_send \<Rightarrow> string \<Rightarrow> string \<Rightarrow> string option \<Rightarrow> unit logging" where
  "log_system_event self send timestamp event details =
     try_except
       (let log_message = system_log_message timestamp event details;
            info = PyInfo (''System event: '' @ event)
        in case logger_channel_id self of
             None \<Rightarrow> (Inr (), [info])
           | Some chat \<Rightarrow>
               if chat = 0 then (Inr (), [info])
               else (let sent =
                           try_except (send_message send chat log_message)
                             (\<lambda>e. (Inr (),
                                   [PyError ''Failed to send system log to Telegram channel: '' e]))
                     in (fst sent, info # snd sent)))
       (\<lambda>e. (Inr (), [PyError ''Error in log_system_event: '' e]))"

section \<open>The start command (\<open>src/handlers/start.py\<close>)\<close>

definition fallback_welcome :: string where
  "fallback_welcome =
     [CHR 0xF0, CHR 0x9F, CHR 0x8E, CHR 0x89] @ '' Welcome to the Lottery Bot!'' @ [CHR 0x0A, CHR 0x0A]
     @ ''Upload your photos to participate in exciting lotteries and win amazing prizes! ''
     @ [CHR 0xF0, CHR 0x9F, CHR 0x8F, CHR 0x86]"

text \<open>
  The handler reads and writes the language preference through the database module and
  detects the language with \<open>get_user_lang\<close>, which may load the translations; it
  returns the database and the state of the language module. \<open>LogSystemError\<close> is the
  call \<open>log_system_event\<close> of the \<open>except\<close> branch, with the exception it reports.
\<close>

definition handle_start_command ::
  "'db database \<Rightarrow> file_read \<Rightarrow> settings \<Rightarrow> 'l option \<Rightarrow> message \<Rightarrow> 'db \<times> language_module
     \<Rightarrow> ('db \<times> language_module) \<times> event list" where
  "handle_start_command D file cfg logger msg state =
     (case state of (db, m) \<Rightarrow>
      case msg_from_user msg of
        None \<Rightarrow> ((db, m), [FsmClear])
      | Some user \<Rightarrow>
          (case get_user_lang file m (language_code user) of
             (Inl e, m') \<Rightarrow>
               ((db, m'),
                [FsmClear]
                @ logged logger
                    (LogSystemError ''Error in start command''
                       (''User '' @ str_int (tg_id user) @ '': '') e)
                @ [MessageReply (Literal fallback_welcome) None])
           | (Inr detected_language, m') \<Rightarrow>
               (let saved_language = db_get_user_language D db (tg_id user);
                    user_language = (if truthy_str saved_language then the saved_language
                                     else detected_language);
                    save = (\<not> truthy_str saved_language
                            \<or> saved_language \<noteq> Some detected_language)
                in ((if save then db_set_user_language D db (tg_id user) user_language else db,
                     m'),
                    [FsmClear, Database (GetUserLanguage (tg_id user))]
                    @ (if save then [Database (SetUserLanguage (tg_id user) user_language)]
                       else [])
                    @ logged logger
                        (LogUserAction user ''/start'' (Some user_language)
                           (Some (''Detected: '' @ detected_language
                                  @ '', Used: '' @ user_language)))
                    @ [MessageReply (Translated ''welcome'' [])
                         (Some (get_welcome_inline_keyboard (channel_username cfg)
                                  (updates_channel_username cfg)
                                  (Translated ''add_me'' []) (Translated ''updates'' [])))]))))"

text \<open>
  What the handler needs of the preference table: a preference that is set is the one
  read back, and setting one user's preference leaves the others.
\<close>

definition keeps_languages :: "'db database \<Rightarrow> bool" where
  "keeps_languages D =
     (\<forall>db u l u'. db_get_user_language D (db_set_user_language D db u l) u'
                    = (if u' = u then Some l else db_get_user_language D db u'))"

section \<open>Concrete inputs\<close>

text \<open>
  The settings, users and callback queries at which the theorems are evaluated: user 1 is
  the administrator; users 10 and 11 own the tickets of \<open>demo_store\<close>.
\<close>

definition demo_settings :: settings where
  "demo_settings =
     \<lparr>bot_token = ''0000000000:token'', admin_ids = [1], group_chat_id = - 1001,
      log_channel_id = Some (- 1002), channel_username = Some ''@lottery'',
      updates_channel_username = None\<rparr>"

definition demo_admin :: tg_user where
  "demo_admin = \<lparr>tg_id = 1, tg_username = Some ''admin'', language_code = Some ''en''\<rparr>"

definition demo_bob :: tg_user where
  "demo_bob = \<lparr>tg_id = 11, tg_username = None, language_code = Some ''RU''\<rparr>"

definition demo_callback :: "tg_user \<Rightarrow> string \<Rightarrow> callback_query" where
  "demo_callback u d = \<lparr>cq_from_user = Some u, cq_data = Some d\<rparr>"

definition demo_message :: "tg_user \<Rightarrow> message" where
  "demo_message u = \<lparr>msg_from_user = Some u\<rparr>"


definition demo_translations :: translation_table where
  "demo_translations =
     [''english'' \<mapsto>
        [''welcome'' \<mapsto> ''Welcome!'',
         ''photo_registered'' \<mapsto> ''Ticket #{ticket_number} registered''],
      ''russian'' \<mapsto> [''welcome'' \<mapsto> ''Privet!'']]"


text \<open>A logger with a channel, and a transport on which every send fails.\<close>

definition demo_logger :: telegram_logger where
  "demo_logger = \<lparr>logger_channel_id = Some (- 1002)\<rparr>"

definition failing_send :: bot_send where
  "failing_send chat body = Some OSError"

text \<open>A store in which user 11 has chosen Russian, and a user on first contact.\<close>

definition demo_preferences :: store where
  "demo_preferences = \<lparr>tickets = [], counter = 0, languages = [11 \<mapsto> ''russian'']\<rparr>"

definition demo_carol :: tg_user where
  "demo_carol = \<lparr>tg_id = 12, tg_username = Some ''carol'', language_code = Some ''ru-RU''\<rparr>"

definition demo_dave :: tg_user where
  "demo_dave = \<lparr>tg_id = 13, tg_username = None, language_code = Some ''RU''\<rparr>"

definition demo_bob_english :: tg_user where
  "demo_bob_english = \<lparr>tg_id = 11, tg_username = None, language_code = Some ''en''\<rparr>"



lemma numbered_exec_op: "numbered s \<Longrightarrow> numbered (exec_op s x)"
proof (cases x)
  case (OpUpload uid uname photo)
  assume n: "numbered s"
  then have "\<forall>t \<in> set (tickets s). ticket_number t \<le> counter s"
    by (simp add: numbered_def list_all_iff)
  then have "counter s + 1 \<notin> ticket_number ` set (tickets s)"
    by fastforce
  with n show ?thesis
    unfolding OpUpload
    by (auto simp: numbered_def next_ticket_number_def add_ticket_def list_all_iff)
next
  case (OpSetStatus n st reason)
  have m: "ticket_number \<circ>
             (\<lambda>t. if ticket_number t = n
                  then t\<lparr>status := st, status_reason := reason\<rparr> else t)
           = ticket_number"
    by (auto simp: fun_eq_iff)
  assume "numbered s"
  then show ?thesis
    unfolding OpSetStatus
    by (auto simp: numbered_def set_ticket_status_def m list_all_iff
             split: option.splits)
next
  case OpArchive
  then show ?thesis by (simp add: numbered_def archive_round_def)
next
  case (OpSetLanguage uid lang)
  assume "numbered s"
  then show ?thesis
    unfolding OpSetLanguage by (simp add: numbered_def store_set_user_language_def)
qed

lemma numbers_with_iff:
  "n \<in> numbers_with st s \<longleftrightarrow> (\<exists>t \<in> set (tickets s). ticket_number t = n \<and> status t = st)"
  by (auto simp: numbers_with_def)

lemma rejected_not_active:
  assumes "numbered s" and "n \<in> numbers_with Rejected s"
  shows "n \<notin> numbers_with Active s"
proof
  assume "n \<in> numbers_with Active s"
  then obtain a where a: "a \<in> set (tickets s)" "ticket_number a = n" "status a = Active"
    by (auto simp: numbers_with_def)
  from assms(2) obtain t where t: "t \<in> set (tickets s)" "ticket_number t = n" "status t = Rejected"
    by (auto simp: numbers_with_def)
  from assms(1) have "inj_on ticket_number (set (tickets s))"
    by (simp add: numbered_def distinct_map)
  with a t have "a = t" by (auto dest: inj_onD)
  with a t show False by simp
qed

lemma rejected_le_counter:
  assumes "numbered s" and "n \<in> numbers_with st s"
  shows "n \<le> counter s"
  using assms by (auto simp: numbered_def numbers_with_def list_all_iff)

lemma lookup_numbered:
  assumes "numbered s" and "t \<in> set (tickets s)"
  shows "get_ticket_any_status s (ticket_number t) = Some t"
proof -
  from assms(1) have inj: "inj_on ticket_number (set (tickets s))"
    by (simp add: numbered_def distinct_map)
  from assms(2) obtain u where u: "get_ticket_any_status s (ticket_number t) = Some u"
    unfolding get_ticket_any_status_def
    by (cases "find (\<lambda>x. ticket_number x = ticket_number t) (tickets s)")
       (auto simp: find_None_iff)
  then have "u \<in> set (tickets s)" "ticket_number u = ticket_number t"
    unfolding get_ticket_any_status_def
    by (auto simp: find_Some_iff)
  with inj assms(2) have "u = t" by (auto dest: inj_onD)
  with u show ?thesis by simp
qed

lemma tickets_set_status:
  "tickets (snd (set_ticket_status s m st reason)) =
     (if get_ticket_any_status s m = None
         \<or> (status (the (get_ticket_any_status s m)) = Rejected \<and> st \<noteq> Rejected)
      then tickets s
      else map (\<lambda>t. if ticket_number t = m
                     then t\<lparr>status := st, status_reason := reason\<rparr> else t) (tickets s))"
  by (auto simp: set_ticket_status_def split: option.splits)

lemma counter_set_status: "counter (snd (set_ticket_status s m st reason)) = counter s"
  by (auto simp: set_ticket_status_def split: option.splits)

lemma lookup_in_store:
  assumes "get_ticket_any_status s n = Some t"
  shows "t \<in> set (tickets s) \<and> ticket_number t = n"
  using assms unfolding get_ticket_any_status_def
  by (auto simp: find_Some_iff)

text \<open>
  A number that has been issued and is not active can never be active again: no operation
  creates a ticket under an issued number, and a status write never turns a rejected
  ticket active.
\<close>

lemma retired_exec_op:
  assumes "n \<le> counter s" and "n \<notin> numbers_with Active s"
  shows "n \<le> counter (exec_op s x) \<and> n \<notin> numbers_with Active (exec_op s x)"
proof (cases x)
  case (OpUpload uid uname photo)
  with assms show ?thesis
    by (auto simp: numbers_with_iff next_ticket_number_def add_ticket_def)
next
  case (OpSetStatus m st reason)
  have "n \<notin> numbers_with Active (exec_op s x)"
  proof
    assume "n \<in> numbers_with Active (exec_op s x)"
    then obtain a where a: "a \<in> set (tickets (snd (set_ticket_status s m st reason)))"
        "ticket_number a = n" "status a = Active"
      unfolding OpSetStatus by (auto simp: numbers_with_iff)
    show False
    proof (cases "get_ticket_any_status s m = None
         \<or> (status (the (get_ticket_any_status s m)) = Rejected \<and> st \<noteq> Rejected)")
      case True
      with a have "a \<in> set (tickets s)" by (simp add: tickets_set_status)
      with a assms(2) show False by (auto simp: numbers_with_iff)
    next
      case False
      then obtain t0 where t0: "get_ticket_any_status s m = Some t0"
        and ok: "status t0 \<noteq> Rejected \<or> st = Rejected"
        by auto
      from a False obtain b where b: "b \<in> set (tickets s)"
        and ab: "a = (if ticket_number b = m
                      then b\<lparr>status := st, status_reason := reason\<rparr> else b)"
        by (auto simp: tickets_set_status)
      show False
      proof (cases "ticket_number b = m")
        case True
        with ab a have "m = n" "st = Active" by auto
        with ok have "status t0 = Active" by (cases "status t0") auto
        with lookup_in_store [OF t0] \<open>m = n\<close> assms(2) show False
          by (auto simp: numbers_with_iff)
      next
        case False
        with ab have "a = b" by simp
        with a b assms(2) show False by (auto simp: numbers_with_iff)
      qed
    qed
  qed
  with assms(1) show ?thesis
    unfolding OpSetStatus by (simp add: counter_set_status)
next
  case OpArchive
  with assms show ?thesis by (simp add: numbers_with_iff archive_round_def)
next
  case (OpSetLanguage uid lang)
  with assms show ?thesis
    by (auto simp: numbers_with_iff store_set_user_language_def)
qed

lemma retired_exec_ops:
  assumes "n \<le> counter s" and "n \<notin> numbers_with Active s"
  shows "n \<le> counter (exec_ops s ops) \<and> n \<notin> numbers_with Active (exec_ops s ops)"
  using assms
proof (induction ops arbitrary: s)
  case Nil
  then show ?case by (simp add: exec_ops_def)
next
  case (Cons x ops)
  have step: "exec_ops s (x # ops) = exec_ops (exec_op s x) ops"
    by (simp add: exec_ops_def)
  from Cons.prems have "n \<le> counter (exec_op s x) \<and> n \<notin> numbers_with Active (exec_op s x)"
    by (rule retired_exec_op)
  then show ?case unfolding step using Cons.IH by blast
qed

lemma numbered_exec_ops: "numbered s \<Longrightarrow> numbered (exec_ops s ops)"
  unfolding exec_ops_def
  by (induction ops arbitrary: s) (simp_all add: numbered_exec_op)

text \<open>
  C4. Ticket status transitions are forward-only. In a store whose numbers are distinct
  and issued, take a ticket \<open>n\<close> whose status is rejected: the attempt
  \<open>set_ticket_status(n, "active", reason)\<close> reports failure and leaves the store as it
  was, so the status of \<open>n\<close> remains rejected; and whatever operations follow (uploads,
  status writes, archival, language writes), \<open>n\<close> is never active again.
\<close>

theorem rejected_is_terminal:
  assumes "numbered s" and "n \<in> numbers_with Rejected s"
  shows "set_ticket_status s n Active reason = (NotFound, s)
       \<and> n \<in> numbers_with Rejected (snd (set_ticket_status s n Active reason))
       \<and> n \<notin> numbers_with Active (exec_ops s ops)"
proof -
  from assms(2) obtain t where t: "t \<in> set (tickets s)" "ticket_number t = n" "status t = Rejected"
    by (auto simp: numbers_with_iff)
  with assms(1) have look: "get_ticket_any_status s n = Some t"
    using lookup_numbered by blast
  with t have fail: "set_ticket_status s n Active reason = (NotFound, s)"
    by (simp add: set_ticket_status_def)
  from assms have "n \<le> counter s" by (rule rejected_le_counter)
  moreover from assms have "n \<notin> numbers_with Active s" by (rule rejected_not_active)
  ultimately have "n \<notin> numbers_with Active (exec_ops s ops)"
    using retired_exec_ops by blast
  with fail assms(2) show ?thesis by simp
qed

theorem rejected_is_terminal_witness:
  "numbered demo_store \<and> 1 \<in> numbers_with Rejected demo_store
   \<and> set_ticket_status demo_store 1 Active (Some ''retry'') = (NotFound, demo_store)
   \<and> 1 \<in> numbers_with Rejected (snd (set_ticket_status demo_store 1 Active (Some ''retry'')))
   \<and> 1 \<notin> numbers_with Active
         (exec_ops demo_store
            [OpSetStatus 1 Active None, OpUpload 20 None ''photo-3'', OpSetStatus 1 Active None])"
proof -
  have n: "numbered demo_store"
    by (simp add: numbered_def demo_store_def)
  have r: "1 \<in> numbers_with Rejected demo_store"
    by (simp add: numbers_with_iff demo_store_def)
  from n r rejected_is_terminal [OF n r] show ?thesis by blast
qed

subsection \<open>Listing and archival\<close>

lemma list_active_rows:
  "sorted (map ticket_number (list_active_tickets_for_user s uid))"
  "mset (list_active_tickets_for_user s uid)
     = mset (filter (\<lambda>t. user_id t = uid \<and> status t = Active) (tickets s))"
  "set (list_active_tickets_for_user s uid)
     = {t \<in> set (tickets s). user_id t = uid \<and> status t = Active}"
  by (simp_all add: list_active_tickets_for_user_def)

lemma rows_of_two_concat: "concat (rows_of_two xs) = xs"
  by (induction xs rule: rows_of_two.induct) simp_all

subsection \<open>Translation lookup\<close>

declare do_markup.simps [simp del]

lemma load_translations_returns:
  assumes "translations_cache m \<noteq> None \<or> (\<forall>e. fr \<noteq> ReadFails e)"
  shows "\<exists>t. fst (load_translations fr m) = Inr t"
  using assms unfolding load_translations_def
  by (cases "translations_cache m"; cases "fr") auto

lemma get_text_loaded:
  assumes "fst (load_translations fr m) = Inr t"
  shows "fst (get_text P fr m uid key kwargs) =
     Inr (case lookup_translation t (get_user_language m uid) key of
            Some tx \<Rightarrow> format_or_text P tx kwargs
          | None \<Rightarrow>
              (case lookup_translation t DEFAULT_LANGUAGE key of
                 Some tx \<Rightarrow> format_or_text P tx kwargs
               | None \<Rightarrow> ''[Missing translation: '' @ key @ '']''))"
proof -
  obtain m' where "load_translations fr m = (Inr t, m')"
    using assms by (cases "load_translations fr m") auto
  then show ?thesis
    unfolding get_text_def Let_def
    by (simp split: option.splits)
qed




lemma load_translations_caches:
  assumes "fst (load_translations fr m) = Inr t"
  shows "translations_cache (snd (load_translations fr m)) = Some t"
  using assms unfolding load_translations_def
  by (cases "translations_cache m"; cases "fr") auto

lemma get_text_raises_iff:
  "(\<exists>e. fst (get_text P fr m uid key kwargs) = Inl e)
     \<longleftrightarrow> translations_cache m = None \<and> (\<exists>e. fr = ReadFails e)"
proof (cases "translations_cache m \<noteq> None \<or> (\<forall>e. fr \<noteq> ReadFails e)")
  case True
  from load_translations_returns [OF True] obtain t
    where "fst (load_translations fr m) = Inr t" ..
  from get_text_loaded [OF this, of P uid key kwargs] True show ?thesis by auto
next
  case False
  then obtain e where "translations_cache m = None" "fr = ReadFails e" by auto
  then show ?thesis
    by (simp add: get_text_def load_translations_def Let_def)
qed




subsection \<open>Payloads\<close>

lemma digit_char_cases:
  assumes "k < 10"
  shows "is_digit (digit_char k) \<and> digit_value (digit_char k) = k
         \<and> digit_char k \<noteq> CHR ''-''"
proof -
  from assms consider "k = 0" | "k = 1" | "k = 2" | "k = 3" | "k = 4"
    | "k = 5" | "k = 6" | "k = 7" | "k = 8" | "k = 9"
    by atomize_elim arith
  then show ?thesis
    by cases (simp_all add: is_digit_def digit_char_def digit_value_def)
qed

lemma decimal_value_snoc:
  "decimal_value (ds @ [c]) = 10 * decimal_value ds + int (digit_value c)"
  by (simp add: decimal_value_def)

declare str_nat.simps [simp del]

lemma str_nat_props:
  "list_all is_digit (str_nat n) \<and> str_nat n \<noteq> [] \<and> decimal_value (str_nat n) = int n
   \<and> hd (str_nat n) \<noteq> CHR ''-''"
proof (induction n rule: str_nat.induct)
  case (1 n)
  show ?case
  proof (cases "n < 10")
    case True
    then show ?thesis
      using digit_char_cases [of n] by (simp add: decimal_value_def str_nat.simps [of n])
  next
    case False
    with 1 have ih: "list_all is_digit (str_nat (n div 10))" "str_nat (n div 10) \<noteq> []"
      "decimal_value (str_nat (n div 10)) = int (n div 10)"
      "hd (str_nat (n div 10)) \<noteq> CHR ''-''"
      by simp_all
    have e: "str_nat n = str_nat (n div 10) @ [digit_char (n mod 10)]"
      using False by (subst str_nat.simps) simp
    have ar: "10 * int (n div 10) + int (n mod 10) = int n"
      by presburger
    from ih digit_char_cases [of "n mod 10"] ar show ?thesis
      unfolding e by (simp add: decimal_value_snoc)
  qed
qed

text \<open>
  The payload that \<open>lottery_inline_actions\<close> and \<open>user_tickets_inline_keyboard\<close> attach to
  a button parses back to the ticket number.
\<close>

lemma parse_str_int: "parse_int_safe (str_int n) = Some n"
proof (cases "n < 0")
  case True
  with str_nat_props [of "nat (- n)"] show ?thesis
    by (simp add: parse_int_safe_def is_decimal_integer_def str_int_def)
next
  case False
  from str_nat_props [of "nat n"] obtain c ds
    where "str_nat (nat n) = c # ds" "c \<noteq> CHR ''-''"
    by (cases "str_nat (nat n)") auto
  with False str_nat_props [of "nat n"] show ?thesis
    by (simp add: parse_int_safe_def is_decimal_integer_def str_int_def)
qed

lemma parse_int_safe_None: "parse_int_safe s = None \<longleftrightarrow> \<not> is_decimal_integer s"
  by (simp add: parse_int_safe_def)

lemma confirm_payload:
  "startswith (''confirm_win:'' @ s) ''confirm_win:''"
  "''confirm_win:'' @ s \<noteq> []"
  "py_index (split_colon_once (''confirm_win:'' @ s)) 1 = Inr s"
  by (simp_all add: startswith_def py_index_def split_colon_once_def)

lemma view_payload:
  "startswith (''view_ticket:'' @ s) ''view_ticket:''"
  "truthy_str (Some (''view_ticket:'' @ s))"
  "py_index (split_colon_once (''view_ticket:'' @ s)) 1 = Inr s"
  by (simp_all add: startswith_def py_index_def split_colon_once_def truthy_str_def)

subsection \<open>Confirming a winner\<close>

lemma confirm_winner_parsed:
  assumes "cq_from_user cb = Some user" and "is_admin (tg_id user) (admin_ids cfg)"
    and "cq_data cb = Some (''confirm_win:'' @ suffix)"
  shows "admin_confirm_winner D cfg logger cb db =
     (case parse_int_safe suffix of
        None \<Rightarrow> (db, [CallbackAnswer (Some (Translated ''incorrect_ticket_number'' [])) True])
      | Some num \<Rightarrow>
          (case db_get_ticket_by_number_any_status D db num of
             None \<Rightarrow>
               (db, [Database (GetTicketByNumberAnyStatus num),
                     CallbackAnswer (Some (Translated ''ticket_unavailable'' [])) True])
           | Some ticket \<Rightarrow>
               if status ticket \<noteq> Active
               then (db, [Database (GetTicketByNumberAnyStatus num),
                          CallbackAnswer (Some (Translated ''ticket_unavailable'' [])) True])
               else (db_set_ticket_status D db num Rejected None,
                     [Database (GetTicketByNumberAnyStatus num),
                      Database (SetTicketStatus num Rejected None)]
                     @ logged logger
                         (LogAdminAction user ''confirm_winner''
                            (Some (''Ticket #'' @ str_int num))
                            (Some (''Winner: @'' @ str_opt (username ticket))))
                     @ [SendMessage (group_chat_id cfg)
                          (Translated ''winner_announced''
                             [(''ticket_number'', PyInt num),
                              (''username'',
                               case username ticket of None \<Rightarrow> PyNone | Some u \<Rightarrow> PyStr u)]),
                        EditReplyMarkup,
                        CallbackAnswer (Some (Translated ''winner_published'' [])) False])))"
  unfolding admin_confirm_winner_def
  by (simp only: assms confirm_payload option.case sum.case if_False if_True simp_thms
        list.simps not_True_eq_False)

text \<open>
  C5. Confirming a winner with a stale ticket number is safe. For an administrator whose
  payload \<open>confirm_win:<suffix>\<close> parses to \<open>n\<close>: when the database has no ticket \<open>n\<close>,
  or the ticket it returns for \<open>n\<close> is not active, the handler looks the ticket up,
  answers \<open>ticket_unavailable\<close> and returns the database it was given, with no status
  write; invoking it again gives the same result. This holds for every implementation of
  the database module.
\<close>

theorem stale_confirmation_is_noop:
  assumes "cq_from_user cb = Some user" and "is_admin (tg_id user) (admin_ids cfg)"
    and "cq_data cb = Some (''confirm_win:'' @ suffix)" and "parse_int_safe suffix = Some n"
    and "db_get_ticket_by_number_any_status D db n = None
         \<or> (\<exists>t. db_get_ticket_by_number_any_status D db n = Some t \<and> status t \<noteq> Active)"
  shows "admin_confirm_winner D cfg logger cb db =
           (db, [Database (GetTicketByNumberAnyStatus n),
                 CallbackAnswer (Some (Translated ''ticket_unavailable'' [])) True])
       \<and> admin_confirm_winner D cfg logger cb (fst (admin_confirm_winner D cfg logger cb db))
           = admin_confirm_winner D cfg logger cb db"
proof -
  from assms(5) have "admin_confirm_winner D cfg logger cb db =
           (db, [Database (GetTicketByNumberAnyStatus n),
                 CallbackAnswer (Some (Translated ''ticket_unavailable'' [])) True])"
    unfolding confirm_winner_parsed [OF assms(1-3)] assms(4)
    by auto
  then show ?thesis by simp
qed

theorem stale_confirmation_is_noop_witness:
  "is_admin (tg_id demo_admin) (admin_ids demo_settings)
   \<and> parse_int_safe ''1'' = Some 1 \<and> parse_int_safe ''7'' = Some 7
   \<and> status (the (get_ticket_any_status demo_store 1)) = Rejected
   \<and> get_ticket_any_status demo_store 7 = None
   \<and> admin_confirm_winner spec_database demo_settings (Some ())
        (demo_callback demo_admin ''confirm_win:1'') demo_store
      = (demo_store, [Database (GetTicketByNumberAnyStatus 1),
                      CallbackAnswer (Some (Translated ''ticket_unavailable'' [])) True])
   \<and> admin_confirm_winner spec_database demo_settings (Some ())
        (demo_callback demo_admin ''confirm_win:7'') demo_store
      = (demo_store, [Database (GetTicketByNumberAnyStatus 7),
                      CallbackAnswer (Some (Translated ''ticket_unavailable'' [])) True])"
proof -
  have a: "is_admin (tg_id demo_admin) (admin_ids demo_settings)"
    by (simp add: is_admin_def demo_admin_def demo_settings_def)
  have p1: "parse_int_safe ''1'' = Some 1" and p7: "parse_int_safe ''7'' = Some 7"
    by (simp_all add: parse_int_safe_def is_decimal_integer_def is_digit_def
          decimal_value_def digit_value_def)
  have l1: "get_ticket_any_status demo_store 1
            = Some \<lparr>ticket_number = 1, user_id = 10, username = Some ''alice'',
                    file_id = ''photo-1'', status = Rejected, status_reason = None\<rparr>"
    and l7: "get_ticket_any_status demo_store 7 = None"
    by (simp_all add: get_ticket_any_status_def demo_store_def)
  have u: "cq_from_user (demo_callback demo_admin d) = Some demo_admin"
    and d: "cq_data (demo_callback demo_admin d) = Some d" for d
    by (simp_all add: demo_callback_def)
  have s1: "db_get_ticket_by_number_any_status spec_database demo_store 1 = None
         \<or> (\<exists>t. db_get_ticket_by_number_any_status spec_database demo_store 1 = Some t
                \<and> status t \<noteq> Active)"
    by (simp add: spec_database_def l1)
  have s7: "db_get_ticket_by_number_any_status spec_database demo_store 7 = None
         \<or> (\<exists>t. db_get_ticket_by_number_any_status spec_database demo_store 7 = Some t
                \<and> status t \<noteq> Active)"
    by (simp add: spec_database_def l7)
  have d1: "cq_data (demo_callback demo_admin ''confirm_win:1'') = Some (''confirm_win:'' @ ''1'')"
    and d7: "cq_data (demo_callback demo_admin ''confirm_win:7'') = Some (''confirm_win:'' @ ''7'')"
    by (simp_all add: d)
  from stale_confirmation_is_noop [OF u a d1 p1 s1, of "Some ()"]
       stale_confirmation_is_noop [OF u a d7 p7 s7, of "Some ()"]
       a p1 p7 l1 l7
  show ?thesis by simp
qed

subsection \<open>Malformed payloads\<close>

lemma view_ticket_parsed:
  assumes "cq_from_user cb = Some user"
    and "cq_data cb = Some (''view_ticket:'' @ suffix)"
  shows "user_view_ticket_callback D logger cb db =
     (case parse_int_safe suffix of
        None \<Rightarrow> (db, [CallbackAnswer (Some (Translated ''incorrect_ticket_number'' [])) True])
      | Some num \<Rightarrow>
          (case db_get_active_ticket_by_number D db num of
             None \<Rightarrow>
               (db, [Database (GetActiveTicketByNumber num),
                     CallbackAnswer (Some (Translated ''ticket_not_found'' [])) True])
           | Some ticket \<Rightarrow>
               if user_id ticket \<noteq> tg_id user
               then (db, [Database (GetActiveTicketByNumber num),
                          CallbackAnswer (Some (Translated ''no_access_ticket'' [])) True])
               else (db, [Database (GetActiveTicketByNumber num)]
                         @ logged logger
                             (LogUserAction user ''view_ticket'' None
                                (Some (''Ticket #'' @ str_int num)))
                         @ [AnswerPhoto (file_id ticket)
                              (Translated ''your_ticket'' [(''ticket_number'', PyInt num)]) None,
                            CallbackAnswer None False])))"
  unfolding user_view_ticket_callback_def
  by (simp only: assms view_payload option.case sum.case if_False if_True simp_thms
        option.sel)

lemma confirm_winner_not_admin:
  assumes "cq_from_user cb = Some user" and "\<not> is_admin (tg_id user) (admin_ids cfg)"
  shows "admin_confirm_winner D cfg logger cb db =
           (db, [CallbackAnswer (Some (Translated ''no_rights'' [])) True])"
  unfolding admin_confirm_winner_def using assms by simp

text \<open>
  C6. A payload \<open>action:<suffix>\<close> whose suffix is not a decimal integer is an error for
  both receiving handlers. The confirm-winner handler, called by an administrator with
  \<open>confirm_win:<suffix>\<close>, and the view-ticket handler, called by any user with
  \<open>view_ticket:<suffix>\<close>, answer \<open>incorrect_ticket_number\<close> as an alert and do
  nothing else: the database is returned as it was and no call to the database module is
  made, neither a lookup nor a write. (A caller of confirm-winner who is not an
  administrator is answered \<open>no_rights\<close> before the payload is read, again with no
  database call.) This holds for every implementation of the database module.
\<close>

theorem malformed_payload_is_rejected:
  assumes "\<not> is_decimal_integer suffix"
    and "cq_from_user cb = Some user" and "cq_from_user cb' = Some user'"
    and "cq_data cb = Some (''confirm_win:'' @ suffix)"
    and "cq_data cb' = Some (''view_ticket:'' @ suffix)"
  shows "(is_admin (tg_id user) (admin_ids cfg) \<longrightarrow>
            admin_confirm_winner D cfg logger cb db =
              (db, [CallbackAnswer (Some (Translated ''incorrect_ticket_number'' [])) True]))
       \<and> fst (admin_confirm_winner D cfg logger cb db) = db
       \<and> (\<forall>c. Database c \<notin> set (snd (admin_confirm_winner D cfg logger cb db)))
       \<and> user_view_ticket_callback D logger cb' db =
              (db, [CallbackAnswer (Some (Translated ''incorrect_ticket_number'' [])) True])"
proof -
  from assms(1) have none: "parse_int_safe suffix = None"
    by (simp add: parse_int_safe_None)
  have adm: "admin_confirm_winner D cfg logger cb db =
              (db, [CallbackAnswer (Some (Translated ''incorrect_ticket_number'' [])) True])"
    if "is_admin (tg_id user) (admin_ids cfg)"
    unfolding confirm_winner_parsed [OF assms(2) that assms(4)] none by simp
  have view: "user_view_ticket_callback D logger cb' db =
              (db, [CallbackAnswer (Some (Translated ''incorrect_ticket_number'' [])) True])"
    unfolding view_ticket_parsed [OF assms(3) assms(5)] none by simp
  have any: "fst (admin_confirm_winner D cfg logger cb db) = db
       \<and> (\<forall>c. Database c \<notin> set (snd (admin_confirm_winner D cfg logger cb db)))"
  proof (cases "is_admin (tg_id user) (admin_ids cfg)")
    case True
    then show ?thesis by (simp add: adm)
  next
    case False
    then show ?thesis by (simp add: confirm_winner_not_admin [OF assms(2)])
  qed
  from adm view any show ?thesis by blast
qed

theorem malformed_payload_is_rejected_witness:
  "\<not> is_decimal_integer ''12a''
   \<and> is_admin (tg_id demo_admin) (admin_ids demo_settings)
   \<and> admin_confirm_winner spec_database demo_settings (Some ())
        (demo_callback demo_admin ''confirm_win:12a'') demo_store
      = (demo_store, [CallbackAnswer (Some (Translated ''incorrect_ticket_number'' [])) True])
   \<and> user_view_ticket_callback spec_database (Some ())
        (demo_callback demo_bob ''view_ticket:12a'') demo_store
      = (demo_store, [CallbackAnswer (Some (Translated ''incorrect_ticket_number'' [])) True])"
proof -
  have n: "\<not> is_decimal_integer ''12a''"
    by (simp add: is_decimal_integer_def is_digit_def)
  have a: "is_admin (tg_id demo_admin) (admin_ids demo_settings)"
    by (simp add: is_admin_def demo_admin_def demo_settings_def)
  have u: "cq_from_user (demo_callback demo_admin ''confirm_win:12a'') = Some demo_admin"
    and u': "cq_from_user (demo_callback demo_bob ''view_ticket:12a'') = Some demo_bob"
    and d: "cq_data (demo_callback demo_admin ''confirm_win:12a'')
            = Some (''confirm_win:'' @ ''12a'')"
    and d': "cq_data (demo_callback demo_bob ''view_ticket:12a'')
            = Some (''view_ticket:'' @ ''12a'')"
    by (simp_all add: demo_callback_def)
  from malformed_payload_is_rejected [OF n u u' d d', of demo_settings spec_database "Some ()" demo_store]
       n a
  show ?thesis by simp
qed

subsection \<open>The effect of a confirmation\<close>

lemma draw_is_active:
  assumes "draw_random_active_ticket s r = Some t"
  shows "t \<in> set (tickets s) \<and> status t = Active"
proof -
  define act where "act = filter (\<lambda>t. status t = Active) (tickets s)"
  from assms have ne: "act \<noteq> []" and t: "t = act ! (r mod length act)"
    unfolding draw_random_active_ticket_def act_def
    by (auto simp: Let_def split: if_splits)
  from ne have "r mod length act < length act" by simp
  then have "t \<in> set act" unfolding t by (rule nth_mem)
  then show ?thesis by (simp add: act_def)
qed

lemma active_lookup:
  assumes "numbered s" and "n \<in> numbers_with Active s"
  shows "\<exists>t. get_ticket_any_status s n = Some t \<and> status t = Active"
proof -
  from assms(2) obtain t where "t \<in> set (tickets s)" "ticket_number t = n" "status t = Active"
    by (auto simp: numbers_with_iff)
  with lookup_numbered [OF assms(1), of t] show ?thesis by auto
qed

text \<open>
  C2. When an administrator confirms ticket \<open>n\<close> as winner while it is active (in a store
  whose numbers are distinct and issued), the handler makes one write. Afterwards \<open>n\<close> is
  rejected and not active; the rows of the store are the rows before, in the same order,
  with only the status and reason of the row numbered \<open>n\<close> changed, so every other ticket
  is as it was; the counter and the language preferences are unchanged; and no draw made
  afterwards, whatever operations come in between, returns ticket \<open>n\<close>.
\<close>

theorem confirm_winner_rejects_ticket:
  assumes "cq_from_user cb = Some user" and "is_admin (tg_id user) (admin_ids cfg)"
    and "cq_data cb = Some (''confirm_win:'' @ suffix)" and "parse_int_safe suffix = Some n"
    and "numbered s" and "n \<in> numbers_with Active s"
    and "s' = fst (admin_confirm_winner spec_database cfg logger cb s)"
  shows "n \<in> numbers_with Rejected s' \<and> n \<notin> numbers_with Active s'
       \<and> tickets s' =
           map (\<lambda>t. if ticket_number t = n
                     then t\<lparr>status := Rejected, status_reason := None\<rparr> else t) (tickets s)
       \<and> (\<forall>m. m \<noteq> n \<longrightarrow> get_ticket_any_status s' m = get_ticket_any_status s m)
       \<and> counter s' = counter s \<and> languages s' = languages s
       \<and> (\<forall>ops r t. draw_random_active_ticket (exec_ops s' ops) r = Some t
              \<longrightarrow> ticket_number t \<noteq> n)"
proof -
  from active_lookup [OF assms(5,6)] obtain t0
    where t0: "get_ticket_any_status s n = Some t0" "status t0 = Active"
    by blast
  have s': "s' = snd (set_ticket_status s n Rejected None)"
    unfolding assms(7) confirm_winner_parsed [OF assms(1-3)] assms(4)
    by (simp add: spec_database_def t0)
  have rows: "tickets s' =
           map (\<lambda>t. if ticket_number t = n
                     then t\<lparr>status := Rejected, status_reason := None\<rparr> else t) (tickets s)"
    unfolding s' by (simp add: tickets_set_status t0)
  have cnt: "counter s' = counter s" and lang: "languages s' = languages s"
    unfolding s' by (simp_all add: set_ticket_status_def t0)
  from lookup_in_store [OF t0(1)] have "t0 \<in> set (tickets s)" "ticket_number t0 = n"
    by simp_all
  then have "t0\<lparr>status := Rejected, status_reason := None\<rparr> \<in> set (tickets s')"
    unfolding rows by force
  then have rej: "n \<in> numbers_with Rejected s'"
    unfolding numbers_with_iff using \<open>ticket_number t0 = n\<close>
    by (intro bexI [of _ "t0\<lparr>status := Rejected, status_reason := None\<rparr>"]) simp_all
  have nact: "n \<notin> numbers_with Active s'"
  proof
    assume "n \<in> numbers_with Active s'"
    then obtain a where a: "a \<in> set (tickets s')" "ticket_number a = n" "status a = Active"
      unfolding numbers_with_iff by blast
    from a(1) have "a \<in> (\<lambda>t. if ticket_number t = n
                            then t\<lparr>status := Rejected, status_reason := None\<rparr> else t)
                     ` set (tickets s)"
      unfolding rows by simp
    then obtain b
      where b: "a = (if ticket_number b = n
                     then b\<lparr>status := Rejected, status_reason := None\<rparr> else b)"
      by (rule imageE)
    show False
    proof (cases "ticket_number b = n")
      case True
      with b a(3) show False by simp
    next
      case False
      with b a(2) show False by simp
    qed
  qed
  have other: "get_ticket_any_status s' m = get_ticket_any_status s m" if "m \<noteq> n" for m
  proof -
    have "find (\<lambda>t. ticket_number t = m)
            (map (\<lambda>t. if ticket_number t = n
                      then t\<lparr>status := Rejected, status_reason := None\<rparr> else t) xs)
          = find (\<lambda>t. ticket_number t = m) xs" for xs
      using that by (induction xs) auto
    then show ?thesis by (simp add: get_ticket_any_status_def rows)
  qed
  from assms(5,6) have "n \<le> counter s" by (rule rejected_le_counter)
  with cnt have "n \<le> counter s'" by simp
  from retired_exec_ops [OF this nact]
  have later: "n \<notin> numbers_with Active (exec_ops s' ops)" for ops by blast
  have draw: "ticket_number t \<noteq> n"
    if "draw_random_active_ticket (exec_ops s' ops) r = Some t" for ops r t
    using draw_is_active [OF that] later [of ops] by (auto simp: numbers_with_iff)
  from rej nact rows other cnt lang draw show ?thesis by blast
qed

theorem confirm_winner_rejects_ticket_witness:
  "is_admin (tg_id demo_admin) (admin_ids demo_settings) \<and> parse_int_safe ''2'' = Some 2
   \<and> numbered demo_store \<and> 2 \<in> numbers_with Active demo_store
   \<and> 2 \<in> numbers_with Rejected
         (fst (admin_confirm_winner spec_database demo_settings (Some ())
                 (demo_callback demo_admin ''confirm_win:2'') demo_store))
   \<and> get_ticket_any_status
         (fst (admin_confirm_winner spec_database demo_settings (Some ())
                 (demo_callback demo_admin ''confirm_win:2'') demo_store)) 1
       = get_ticket_any_status demo_store 1
   \<and> counter (fst (admin_confirm_winner spec_database demo_settings (Some ())
                 (demo_callback demo_admin ''confirm_win:2'') demo_store)) = 2"
proof -
  have a: "is_admin (tg_id demo_admin) (admin_ids demo_settings)"
    by (simp add: is_admin_def demo_admin_def demo_settings_def)
  have p: "parse_int_safe ''2'' = Some 2"
    by (simp add: parse_int_safe_def is_decimal_integer_def is_digit_def
          decimal_value_def digit_value_def)
  have n: "numbered demo_store"
    by (simp add: numbered_def demo_store_def)
  have act: "2 \<in> numbers_with Active demo_store"
    by (simp add: numbers_with_iff demo_store_def)
  have u: "cq_from_user (demo_callback demo_admin ''confirm_win:2'') = Some demo_admin"
    and d: "cq_data (demo_callback demo_admin ''confirm_win:2'') = Some (''confirm_win:'' @ ''2'')"
    by (simp_all add: demo_callback_def)
  have c: "counter demo_store = 2" by (simp add: demo_store_def)
  note th = confirm_winner_rejects_ticket [OF u a d p n act refl, of "Some ()"]
  from th have r: "2 \<in> numbers_with Rejected
         (fst (admin_confirm_winner spec_database demo_settings (Some ())
                 (demo_callback demo_admin ''confirm_win:2'') demo_store))"
    by (rule conjunct1)
  from th have "\<forall>m. m \<noteq> 2 \<longrightarrow> get_ticket_any_status
         (fst (admin_confirm_winner spec_database demo_settings (Some ())
                 (demo_callback demo_admin ''confirm_win:2'') demo_store)) m
       = get_ticket_any_status demo_store m"
    by blast
  then have o: "get_ticket_any_status
         (fst (admin_confirm_winner spec_database demo_settings (Some ())
                 (demo_callback demo_admin ''confirm_win:2'') demo_store)) 1
       = get_ticket_any_status demo_store 1"
    by simp
  from th have "counter (fst (admin_confirm_winner spec_database demo_settings (Some ())
                 (demo_callback demo_admin ''confirm_win:2'') demo_store)) = counter demo_store"
    by blast
  with c have k: "counter (fst (admin_confirm_winner spec_database demo_settings (Some ())
                 (demo_callback demo_admin ''confirm_win:2'') demo_store)) = 2"
    by simp
  from a p n act r o k show ?thesis by blast
qed

subsection \<open>My tickets\<close>

text \<open>
  C7. \<open>list_active_tickets_for_user(user_id)\<close> returns exactly the tickets owned by
  \<open>user_id\<close> whose status is active (as a multiset: each such row once), in ascending
  order of ticket number, strictly ascending when the numbers of the store are distinct;
  when the user has no active ticket it returns the empty sequence. \<open>handle_my_tickets\<close>
  then answers \<open>no_tickets\<close>, which is not its error answer, and otherwise shows one
  button per returned number, in that order.
\<close>

theorem active_tickets_of_user_sorted:
  assumes "rows = list_active_tickets_for_user s uid"
    and "msg_from_user msg = Some user" and "tg_id user = uid"
  shows "sorted (map ticket_number rows)
       \<and> mset rows = mset (filter (\<lambda>t. user_id t = uid \<and> status t = Active) (tickets s))
       \<and> (numbered s \<longrightarrow> distinct (map ticket_number rows))
       \<and> ((\<forall>t \<in> set (tickets s). \<not> (user_id t = uid \<and> status t = Active)) \<longrightarrow> rows = [])
       \<and> handle_my_tickets spec_database logger msg s =
           (s, logged logger (LogUserAction user ''view_my_tickets'' None None)
               @ [Database (GetActiveTicketsByUser uid),
                  if rows = [] then MessageAnswer (Translated ''no_tickets'' []) None
                  else MessageAnswer
                         (Translated ''your_tickets'' [(''count'', PyInt (int (length rows)))])
                         (Some (user_tickets_inline_keyboard (map ticket_number rows)))])
       \<and> concat (user_tickets_inline_keyboard (map ticket_number rows))
           = map ticket_button (map ticket_number rows)"
proof -
  have srt: "sorted (map ticket_number rows)"
    and ms: "mset rows = mset (filter (\<lambda>t. user_id t = uid \<and> status t = Active) (tickets s))"
    and st: "set rows = {t \<in> set (tickets s). user_id t = uid \<and> status t = Active}"
    unfolding assms(1) by (rule list_active_rows)+
  have dist: "distinct (map ticket_number rows)" if "numbered s"
  proof -
    from that have "distinct (map ticket_number (tickets s))"
      by (simp add: numbered_def)
    then have "distinct (map ticket_number
                 (filter (\<lambda>t. user_id t = uid \<and> status t = Active) (tickets s)))"
      by (rule distinct_map_filter)
    moreover have "mset (map ticket_number rows)
        = mset (map ticket_number
                 (filter (\<lambda>t. user_id t = uid \<and> status t = Active) (tickets s)))"
      by (simp only: mset_map ms)
    ultimately show ?thesis
      using mset_eq_imp_distinct_iff by blast
  qed
  have emp: "rows = []" if "\<forall>t \<in> set (tickets s). \<not> (user_id t = uid \<and> status t = Active)"
  proof -
    from that have "filter (\<lambda>t. user_id t = uid \<and> status t = Active) (tickets s) = []"
      by (simp only: filter_empty_conv)
    then show ?thesis
      unfolding assms(1) list_active_tickets_for_user_def by simp
  qed
  have h: "handle_my_tickets spec_database logger msg s =
           (s, logged logger (LogUserAction user ''view_my_tickets'' None None)
               @ [Database (GetActiveTicketsByUser uid),
                  if rows = [] then MessageAnswer (Translated ''no_tickets'' []) None
                  else MessageAnswer
                         (Translated ''your_tickets'' [(''count'', PyInt (int (length rows)))])
                         (Some (user_tickets_inline_keyboard (map ticket_number rows)))])"
  proof -
    have r: "db_get_active_tickets_by_user spec_database s (tg_id user) = rows"
      by (simp add: spec_database_def assms(1,3))
    show ?thesis
      unfolding handle_my_tickets_def assms(2) option.case Let_def r
      by (cases "rows = []") (simp_all add: assms(3))
  qed
  have kb: "concat (user_tickets_inline_keyboard (map ticket_number rows))
           = map ticket_button (map ticket_number rows)"
    by (simp add: user_tickets_inline_keyboard_def rows_of_two_concat)
  show ?thesis
    by (intro conjI impI) (rule srt ms h kb | erule dist emp)+
qed

theorem active_tickets_of_user_sorted_witness:
  "map ticket_number (list_active_tickets_for_user demo_rows 11) = [2, 3]
   \<and> sorted (map ticket_number (list_active_tickets_for_user demo_rows 11))
   \<and> list_active_tickets_for_user demo_rows 10 = []
   \<and> snd (handle_my_tickets spec_database (Some ()) (demo_message demo_bob) demo_rows)
       = [LogUserAction demo_bob ''view_my_tickets'' None None,
          Database (GetActiveTicketsByUser 11),
          MessageAnswer (Translated ''your_tickets'' [(''count'', PyInt 2)])
            (Some [[ticket_button 2, ticket_button 3]])]"
proof -
  have rows: "list_active_tickets_for_user demo_rows 11 =
     [\<lparr>ticket_number = 2, user_id = 11, username = None, file_id = ''photo-2'',
       status = Active, status_reason = None\<rparr>,
      \<lparr>ticket_number = 3, user_id = 11, username = None, file_id = ''photo-3'',
       status = Active, status_reason = None\<rparr>]"
    and none: "list_active_tickets_for_user demo_rows 10 = []"
    by (simp_all add: list_active_tickets_for_user_def demo_rows_def)
  have u: "msg_from_user (demo_message demo_bob) = Some demo_bob" "tg_id demo_bob = 11"
    by (simp_all add: demo_message_def demo_bob_def)
  note th = active_tickets_of_user_sorted [OF refl u, of demo_rows "Some ()"]
  from th have srt: "sorted (map ticket_number (list_active_tickets_for_user demo_rows 11))"
    by (rule conjunct1)
  have "handle_my_tickets spec_database (Some ()) (demo_message demo_bob) demo_rows =
           (demo_rows, logged (Some ()) (LogUserAction demo_bob ''view_my_tickets'' None None)
               @ [Database (GetActiveTicketsByUser 11),
                  if list_active_tickets_for_user demo_rows 11 = []
                  then MessageAnswer (Translated ''no_tickets'' []) None
                  else MessageAnswer
                         (Translated ''your_tickets''
                            [(''count'', PyInt (int (length (list_active_tickets_for_user demo_rows 11))))])
                         (Some (user_tickets_inline_keyboard
                                  (map ticket_number (list_active_tickets_for_user demo_rows 11))))])"
    by (rule th [THEN conjunct2, THEN conjunct2, THEN conjunct2, THEN conjunct2, THEN conjunct1])
  then have h: "snd (handle_my_tickets spec_database (Some ()) (demo_message demo_bob) demo_rows)
       = [LogUserAction demo_bob ''view_my_tickets'' None None,
          Database (GetActiveTicketsByUser 11),
          MessageAnswer (Translated ''your_tickets'' [(''count'', PyInt 2)])
            (Some [[ticket_button 2, ticket_button 3]])]"
    by (simp add: rows logged_def user_tickets_inline_keyboard_def)
  from rows none srt h show ?thesis by simp
qed

subsection \<open>Archival\<close>

text \<open>
  C3. When an administrator archives the round, every ticket, active or rejected, leaves
  the live set in one step: afterwards the store holds no ticket, so
  \<open>list_active_tickets_for_user(u)\<close> is empty for every user \<open>u\<close>; the counter and the
  language preferences are unchanged, and the next \<open>next_ticket_number()\<close> returns one
  more than the last number issued before the archival.
\<close>

theorem archive_keeps_counter:
  assumes "msg_from_user msg = Some user" and "is_admin (tg_id user) (admin_ids cfg)"
    and "s' = fst (admin_archive spec_database cfg logger msg s)"
  shows "tickets s' = []
       \<and> (\<forall>u. list_active_tickets_for_user s' u = [])
       \<and> (\<forall>n. get_ticket_any_status s' n = None)
       \<and> counter s' = counter s \<and> languages s' = languages s
       \<and> fst (next_ticket_number s') = counter s + 1
       \<and> (\<forall>s0 k. next_ticket_number s0 = (k, s) \<longrightarrow> fst (next_ticket_number s') = k + 1)
       \<and> (\<forall>s0 uid uname photo. s = exec_op s0 (OpUpload uid uname photo)
             \<longrightarrow> fst (next_ticket_number s') = fst (next_ticket_number s0) + 1)"
proof -
  have s': "s' = archive_round s"
    unfolding assms(3) admin_archive_def using assms(1,2)
    by (simp add: spec_database_def)
  have t: "tickets s' = []" and c: "counter s' = counter s" and l: "languages s' = languages s"
    unfolding s' by (simp_all add: archive_round_def)
  from t have la: "list_active_tickets_for_user s' u = []" for u
    by (simp add: list_active_tickets_for_user_def)
  from t have g: "get_ticket_any_status s' n = None" for n
    by (simp add: get_ticket_any_status_def)
  from c have nx: "fst (next_ticket_number s') = counter s + 1"
    by (simp add: next_ticket_number_def)
  have k: "fst (next_ticket_number s') = k + 1" if "next_ticket_number s0 = (k, s)" for s0 k
  proof -
    from that have "counter s = k" by (auto simp: next_ticket_number_def)
    with nx show ?thesis by simp
  qed
  have up: "fst (next_ticket_number s') = fst (next_ticket_number s0) + 1"
    if "s = exec_op s0 (OpUpload uid uname photo)" for s0 uid uname photo
  proof -
    from that have "counter s = counter s0 + 1"
      by (simp add: next_ticket_number_def add_ticket_def)
    with nx show ?thesis by (simp add: next_ticket_number_def)
  qed
  show ?thesis
    by (intro conjI allI impI) (rule t la g c l nx | erule k up)+
qed

theorem archive_keeps_counter_witness:
  "is_admin (tg_id demo_admin) (admin_ids demo_settings)
   \<and> fst (next_ticket_number demo_store) = 3
   \<and> tickets (fst (admin_archive spec_database demo_settings (Some ())
                      (demo_message demo_admin) demo_store)) = []
   \<and> list_active_tickets_for_user
        (fst (admin_archive spec_database demo_settings (Some ())
                (demo_message demo_admin) demo_store)) 11 = []
   \<and> fst (next_ticket_number
        (fst (admin_archive spec_database demo_settings (Some ())
                (demo_message demo_admin) demo_store))) = 3"
proof -
  have a: "is_admin (tg_id demo_admin) (admin_ids demo_settings)"
    by (simp add: is_admin_def demo_admin_def demo_settings_def)
  have u: "msg_from_user (demo_message demo_admin) = Some demo_admin"
    by (simp add: demo_message_def)
  have c: "counter demo_store = 2" by (simp add: demo_store_def)
  then have n: "fst (next_ticket_number demo_store) = 3"
    by (simp add: next_ticket_number_def)
  note th = archive_keeps_counter [OF u a refl, of "Some ()" demo_store]
  from th have t: "tickets (fst (admin_archive spec_database demo_settings (Some ())
                      (demo_message demo_admin) demo_store)) = []"
    by (rule conjunct1)
  have "\<forall>u. list_active_tickets_for_user
        (fst (admin_archive spec_database demo_settings (Some ())
                (demo_message demo_admin) demo_store)) u = []"
    by (rule th [THEN conjunct2, THEN conjunct1])
  then have la: "list_active_tickets_for_user
        (fst (admin_archive spec_database demo_settings (Some ())
                (demo_message demo_admin) demo_store)) 11 = []"
    by (rule spec)
  have "fst (next_ticket_number
        (fst (admin_archive spec_database demo_settings (Some ())
                (demo_message demo_admin) demo_store))) = counter demo_store + 1"
    by (rule th [THEN conjunct2, THEN conjunct2, THEN conjunct2, THEN conjunct2, THEN conjunct2, THEN conjunct1])
  with c have nx: "fst (next_ticket_number
        (fst (admin_archive spec_database demo_settings (Some ())
                (demo_message demo_admin) demo_store))) = 3"
    by simp
  from a n t la nx show ?thesis by (intro conjI)
qed

subsection \<open>Audit logging\<close>

lemma try_except_returns:
  assumes "\<And>e. fst (handler e) = Inr v"
  shows "\<exists>w. fst (try_except body handler) = Inr w"
  using assms unfolding try_except_def by (cases "fst body") auto

text \<open>
  C8. Audit logging is best-effort: \<open>log_user_action\<close>, \<open>log_admin_action\<close> and
  \<open>log_system_event\<close> return without raising, whatever the logger's channel is and
  whatever \<open>bot.send_message\<close> does, including a transport on which every send raises.
  When the channel is set, the message is handed to the transport exactly once and a
  failure is recorded in the Python log instead of being raised.
\<close>

theorem audit_logging_never_raises:
  "fst (log_user_action self send timestamp user action language additional_info) = Inr ()
   \<and> fst (log_admin_action self send timestamp user action target reason) = Inr ()
   \<and> fst (log_system_event self send timestamp event details) = Inr ()
   \<and> (\<forall>chat e. logger_channel_id self = Some chat \<and> chat \<noteq> 0
          \<and> send chat (user_log_message timestamp user action language additional_info) = Some e
        \<longrightarrow> log_user_action self send timestamp user action language additional_info =
            (Inr (),
             [PyInfo (''User '' @ str_int (tg_id user) @ '' ('' @ display_name user
                      @ '') performed action: '' @ action),
              ChannelMessage chat (user_log_message timestamp user action language additional_info),
              PyError (''Failed to send log to Telegram channel '' @ str_int chat @ '': '') e]))"
proof -
  have u: "fst (log_user_action self send timestamp user action language additional_info) = Inr ()"
    for action language additional_info
  proof -
    have "\<exists>w. fst (log_user_action self send timestamp user action language additional_info) = Inr w"
      unfolding log_user_action_def by (rule try_except_returns) simp
    then show ?thesis by simp
  qed
  have a: "fst (log_admin_action self send timestamp user action target reason) = Inr ()"
    unfolding log_admin_action_def Let_def by (rule u)
  have s: "fst (log_system_event self send timestamp event details) = Inr ()"
  proof -
    have "\<exists>w. fst (log_system_event self send timestamp event details) = Inr w"
      unfolding log_system_event_def by (rule try_except_returns) simp
    then show ?thesis by simp
  qed
  have f: "log_user_action self send timestamp user action language additional_info =
            (Inr (),
             [PyInfo (''User '' @ str_int (tg_id user) @ '' ('' @ display_name user
                      @ '') performed action: '' @ action),
              ChannelMessage chat (user_log_message timestamp user action language additional_info),
              PyError (''Failed to send log to Telegram channel '' @ str_int chat @ '': '') e])"
    if "logger_channel_id self = Some chat \<and> chat \<noteq> 0
          \<and> send chat (user_log_message timestamp user action language additional_info) = Some e"
    for chat e
    using that unfolding log_user_action_def
    by (simp add: try_except_def send_message_def Let_def)
  from u a s f show ?thesis by blast
qed

theorem audit_logging_never_raises_witness:
  "fst (log_admin_action demo_logger failing_send ''2025-01-01 10:00:00'' demo_admin
          ''confirm_winner'' (Some ''Ticket #2'') (Some ''Winner: @None'')) = Inr ()
   \<and> fst (log_system_event demo_logger failing_send ''2025-01-01 10:00:00''
          ''Bot started'' None) = Inr ()
   \<and> snd (log_user_action demo_logger failing_send ''2025-01-01 10:00:00'' demo_bob
          ''/start'' None None)
     = [PyInfo ''User 11 (No username) performed action: /start'',
        ChannelMessage (- 1002)
          (user_log_message ''2025-01-01 10:00:00'' demo_bob ''/start'' None None),
        PyError ''Failed to send log to Telegram channel -1002: '' OSError]"
proof -
  note th = audit_logging_never_raises [of demo_logger failing_send "''2025-01-01 10:00:00''"]
  have a: "fst (log_admin_action demo_logger failing_send ''2025-01-01 10:00:00'' demo_admin
          ''confirm_winner'' (Some ''Ticket #2'') (Some ''Winner: @None'')) = Inr ()"
    using th [of demo_admin] by blast
  have s: "fst (log_system_event demo_logger failing_send ''2025-01-01 10:00:00''
          ''Bot started'' None) = Inr ()"
    using th [of demo_admin] by blast
  have "logger_channel_id demo_logger = Some (- 1002) \<and> (- 1002 :: int) \<noteq> 0
        \<and> failing_send (- 1002)
             (user_log_message ''2025-01-01 10:00:00'' demo_bob ''/start'' None None)
           = Some OSError"
    by (simp add: demo_logger_def failing_send_def)
  with th [of demo_bob "''/start''" None None]
  have "log_user_action demo_logger failing_send ''2025-01-01 10:00:00'' demo_bob
          ''/start'' None None
     = (Inr (),
        [PyInfo (''User '' @ str_int (tg_id demo_bob) @ '' ('' @ display_name demo_bob
                 @ '') performed action: '' @ ''/start''),
        ChannelMessage (- 1002)
          (user_log_message ''2025-01-01 10:00:00'' demo_bob ''/start'' None None),
        PyError (''Failed to send log to Telegram channel '' @ str_int (- 1002) @ '': '') OSError])"
    by blast
  moreover have "str_int (tg_id demo_bob) = ''11''" "str_int (- 1002) = ''-1002''"
    "display_name demo_bob = ''No username''"
    by (simp_all add: demo_bob_def display_name_def str_int_def str_nat.simps digit_char_def)
  ultimately have u: "snd (log_user_action demo_logger failing_send ''2025-01-01 10:00:00'' demo_bob
          ''/start'' None None)
     = [PyInfo ''User 11 (No username) performed action: /start'',
        ChannelMessage (- 1002)
          (user_log_message ''2025-01-01 10:00:00'' demo_bob ''/start'' None None),
        PyError ''Failed to send log to Telegram channel -1002: '' OSError]"
    by simp
  from a s u show ?thesis by (intro conjI)
qed

subsection \<open>The language preference\<close>

lemma spec_database_keeps_languages: "keeps_languages spec_database"
  by (simp add: keeps_languages_def spec_database_def store_get_user_language_def
        store_set_user_language_def)

lemma start_database:
  "fst (fst (handle_start_command D fr cfg logger msg (db, m))) =
     (case msg_from_user msg of
        None \<Rightarrow> db
      | Some user \<Rightarrow>
          (case fst (get_user_lang fr m (language_code user)) of
             Inl e \<Rightarrow> db
           | Inr detected \<Rightarrow>
               (case db_get_user_language D db (tg_id user) of
                  None \<Rightarrow> db_set_user_language D db (tg_id user) detected
                | Some saved \<Rightarrow>
                    if saved = [] then db_set_user_language D db (tg_id user) detected
                    else if saved \<noteq> detected
                    then db_set_user_language D db (tg_id user) saved
                    else db)))"
  unfolding handle_start_command_def
  by (simp add: Let_def truthy_str_def split: option.splits sum.splits prod.splits)

text \<open>
  C9. The stored language preference is set from the locale hint at most once. For every
  database module in which a preference that is set is the one read back and other
  users' preferences are left alone: if user \<open>uid\<close> has a saved, non-empty preference
  \<open>l\<close>, then after any \<open>/start\<close> message, from this user with any locale hint or from
  anyone else, the preference of \<open>uid\<close> is still \<open>l\<close>; and if \<open>uid\<close> has none, the
  \<open>/start\<close> of \<open>uid\<close> stores the language detected from the hint.
\<close>

theorem saved_language_is_kept:
  assumes "keeps_languages D"
    and "db' = fst (fst (handle_start_command D fr cfg logger msg (db, m)))"
  shows "(\<forall>l. db_get_user_language D db uid = Some l \<and> l \<noteq> []
            \<longrightarrow> db_get_user_language D db' uid = Some l)
       \<and> (\<forall>user d. msg_from_user msg = Some user \<and> tg_id user = uid
              \<and> db_get_user_language D db uid = None
              \<and> fst (get_user_lang fr m (language_code user)) = Inr d
            \<longrightarrow> db_get_user_language D db' uid = Some d)"
proof -
  from assms(1) have law: "db_get_user_language D (db_set_user_language D x u v) u'
                    = (if u' = u then Some v else db_get_user_language D x u')" for x u v u'
    unfolding keeps_languages_def by blast
  have kept: "db_get_user_language D db' uid = Some l"
    if l: "db_get_user_language D db uid = Some l \<and> l \<noteq> []" for l
  proof (cases "msg_from_user msg")
    case None
    with l show ?thesis unfolding assms(2) start_database by simp
  next
    case (Some user)
    show ?thesis
    proof (cases "fst (get_user_lang fr m (language_code user))")
      case (Inl e)
      with Some l show ?thesis unfolding assms(2) start_database by simp
    next
      case (Inr detected)
      show ?thesis
      proof (cases "tg_id user = uid")
        case True
        with Some Inr l show ?thesis
          unfolding assms(2) start_database by (simp add: law)
      next
        case False
        with Some Inr l show ?thesis
          unfolding assms(2) start_database
          by (simp add: law split: option.splits)
      qed
    qed
  qed
  have first: "db_get_user_language D db' uid = Some d"
    if "msg_from_user msg = Some user \<and> tg_id user = uid
        \<and> db_get_user_language D db uid = None
        \<and> fst (get_user_lang fr m (language_code user)) = Inr d" for user d
    using that unfolding assms(2) start_database by (simp add: law)
  from kept first show ?thesis by blast
qed

theorem saved_language_is_kept_witness:
  "keeps_languages spec_database
   \<and> store_get_user_language demo_preferences 11 = Some ''russian''
   \<and> store_get_user_language
        (fst (fst (handle_start_command spec_database (Parsed demo_translations) demo_settings
                     (Some ()) (demo_message demo_bob_english)
                     (demo_preferences, \<lparr>translations_cache = None, user_languages = Map.empty\<rparr>))))
        11 = Some ''russian''
   \<and> store_get_user_language demo_preferences 13 = None
   \<and> fst (get_user_lang (Parsed demo_translations)
             \<lparr>translations_cache = None, user_languages = Map.empty\<rparr>
             (language_code demo_dave)) = Inr ''russian''
   \<and> store_get_user_language
        (fst (fst (handle_start_command spec_database (Parsed demo_translations) demo_settings
                     (Some ()) (demo_message demo_dave)
                     (demo_preferences, \<lparr>translations_cache = None, user_languages = Map.empty\<rparr>))))
        13 = Some ''russian''"
proof -
  have g: "db_get_user_language spec_database = store_get_user_language"
    by (simp add: spec_database_def)
  have p11: "store_get_user_language demo_preferences 11 = Some ''russian''"
    and p13: "store_get_user_language demo_preferences 13 = None"
    by (simp_all add: store_get_user_language_def demo_preferences_def)
  have d: "fst (get_user_lang (Parsed demo_translations)
             \<lparr>translations_cache = None, user_languages = Map.empty\<rparr>
             (language_code demo_dave)) = Inr ''russian''"
    by code_simp
  have u: "msg_from_user (demo_message demo_dave) = Some demo_dave" "tg_id demo_dave = 13"
    by (simp_all add: demo_message_def demo_dave_def)
  note th = saved_language_is_kept [OF spec_database_keeps_languages refl,
      where fr = "Parsed demo_translations" and cfg = demo_settings and logger = "Some ()"
        and db = demo_preferences
        and m = "\<lparr>translations_cache = None, user_languages = Map.empty\<rparr>", unfolded g]
  from th [where msg = "demo_message demo_bob_english" and uid = 11] p11
  have k: "store_get_user_language
        (fst (fst (handle_start_command spec_database (Parsed demo_translations) demo_settings
                     (Some ()) (demo_message demo_bob_english)
                     (demo_preferences, \<lparr>translations_cache = None, user_languages = Map.empty\<rparr>))))
        11 = Some ''russian''"
    by simp
  from th [where msg = "demo_message demo_dave" and uid = 13] p13 d u
  have f: "store_get_user_language
        (fst (fst (handle_start_command spec_database (Parsed demo_translations) demo_settings
                     (Some ()) (demo_message demo_dave)
                     (demo_preferences, \<lparr>translations_cache = None, user_languages = Map.empty\<rparr>))))
        13 = Some ''russian''"
    by blast
  from spec_database_keeps_languages p11 k p13 d f show ?thesis by (intro conjI)
qed

end
